theory Spec2Isabelle
  imports Main "HOL-Library.Word"
begin

unbundle bit_operations_syntax

section \<open>Values of the managed runtime\<close>

text \<open>
  A Ruby \<open>VALUE\<close> as far as \<open>factory.c\<close> looks at it: the three special constants, integers,
  symbols, strings (a byte sequence), classes and modules (by name), arrays, and
  \<open>T_DATA\<close> objects, which are references into the object heap.
\<close>

datatype VALUE =
    Qnil
  | Qtrue
  | Qfalse
  | RInteger int
  | RSymbol string
  | RString string
  | RClass string
  | RModule string
  | RArray "VALUE list"
  | RData nat

datatype ruby_type =
  T_NIL | T_TRUE | T_FALSE | T_FIXNUM | T_SYMBOL | T_STRING | T_CLASS | T_MODULE | T_ARRAY | T_DATA

text \<open>The macro \<open>TYPE(v)\<close>; Ruby's function of the same meaning is \<open>rb_type\<close>.\<close>

fun rb_type :: "VALUE \<Rightarrow> ruby_type" where
  "rb_type Qnil = T_NIL"
| "rb_type Qtrue = T_TRUE"
| "rb_type Qfalse = T_FALSE"
| "rb_type (RInteger _) = T_FIXNUM"
| "rb_type (RSymbol _) = T_SYMBOL"
| "rb_type (RString _) = T_STRING"
| "rb_type (RClass _) = T_CLASS"
| "rb_type (RModule _) = T_MODULE"
| "rb_type (RArray _) = T_ARRAY"
| "rb_type (RData _) = T_DATA"

definition NIL_P :: "VALUE \<Rightarrow> bool" where
  "NIL_P v = (v = Qnil)"

section \<open>Handles of the geometry engine\<close>

text \<open>
  Every engine handle is a C pointer: \<open>None\<close> is \<open>NULL\<close>, \<open>Some a\<close> the handle at
  address \<open>a\<close>. The engine never shows what is behind a handle.
\<close>

type_synonym handle = "nat option"

text \<open>
  A C \<open>double\<close> is its IEEE 754 binary64 bit pattern. \<open>double_eq\<close> is the \<open>==\<close> of C on
  doubles: a NaN is equal to nothing, the two zeros are equal to each other, and every
  other pair is equal exactly when the bit patterns are. The \<open>!=\<close> of C is its negation.
\<close>

type_synonym double = "64 word"

definition double_is_nan :: "double \<Rightarrow> bool" where
  "double_is_nan d = (0x7FF0000000000000 < (d AND 0x7FFFFFFFFFFFFFFF))"

definition double_is_zero :: "double \<Rightarrow> bool" where
  "double_is_zero d = (d AND 0x7FFFFFFFFFFFFFFF = 0)"

definition double_eq :: "double \<Rightarrow> double \<Rightarrow> bool" where
  "double_eq a b =
     (\<not> double_is_nan a \<and> \<not> double_is_nan b \<and> (a = b \<or> (double_is_zero a \<and> double_is_zero b)))"

text \<open>
  The engine is outside this repository, so its answers are parameters: each field stands
  for the engine function of the same name and gives what that function returns for the
  arguments it is called with, during one call of a function of this file. The first
  argument is always the context handle. A pointer result is a \<open>handle\<close>; for the
  coordinate reads, \<open>None\<close> is the return value 0 with which the engine reports a
  failure, and \<open>Some v\<close> a success that stored \<open>v\<close> through the out-parameter.
  \<open>unsigned int\<close> is \<open>32 word\<close>, the \<open>int\<close> of a geometry type id is \<open>int\<close>. A
  geometry or coordinate sequence that the code passes only after testing it against
  \<open>NULL\<close> is given by its address.
\<close>

record engine =
  initGEOS_r :: "handle"
  GEOSWKTReader_create_r :: "handle \<Rightarrow> handle"
  GEOSWKBReader_create_r :: "handle \<Rightarrow> handle"
  GEOSWKTReader_read_r :: "handle \<Rightarrow> handle \<Rightarrow> string \<Rightarrow> handle"
  GEOSWKBReader_read_r :: "handle \<Rightarrow> handle \<Rightarrow> string \<Rightarrow> nat \<Rightarrow> handle"
  GEOSGeomTypeId_r :: "handle \<Rightarrow> handle \<Rightarrow> int"
  GEOSGeom_getCoordSeq_r :: "handle \<Rightarrow> nat \<Rightarrow> handle"
  GEOSCoordSeq_getSize_r :: "handle \<Rightarrow> nat \<Rightarrow> 32 word option"
  GEOSCoordSeq_getX_r :: "handle \<Rightarrow> nat \<Rightarrow> 32 word \<Rightarrow> double option"
  GEOSCoordSeq_getY_r :: "handle \<Rightarrow> nat \<Rightarrow> 32 word \<Rightarrow> double option"
  GEOSCoordSeq_getZ_r :: "handle \<Rightarrow> nat \<Rightarrow> 32 word \<Rightarrow> double option"

text \<open>The geometry type ids of the engine's header \<open>geos_c.h\<close> (\<open>enum GEOSGeomTypes\<close>).\<close>

definition GEOS_POINT :: int where "GEOS_POINT = 0"
definition GEOS_LINESTRING :: int where "GEOS_LINESTRING = 1"
definition GEOS_LINEARRING :: int where "GEOS_LINEARRING = 2"
definition GEOS_POLYGON :: int where "GEOS_POLYGON = 3"
definition GEOS_MULTIPOINT :: int where "GEOS_MULTIPOINT = 4"
definition GEOS_MULTILINESTRING :: int where "GEOS_MULTILINESTRING = 5"
definition GEOS_MULTIPOLYGON :: int where "GEOS_MULTIPOLYGON = 6"
definition GEOS_GEOMETRYCOLLECTION :: int where "GEOS_GEOMETRYCOLLECTION = 7"

text \<open>
  The calls into the engine and to \<open>free\<close> that change or release something, in the
  order in which they are made.
\<close>

datatype call =
    Call_initGEOS_r
  | Call_finishGEOS_r handle
  | Call_GEOSWKTReader_create_r handle
  | Call_GEOSWKBReader_create_r handle
  | Call_GEOSWKTReader_read_r handle handle string
  | Call_GEOSWKBReader_read_r handle handle string nat
  | Call_GEOSWKTReader_destroy_r handle handle
  | Call_GEOSWKBReader_destroy_r handle handle
  | Call_GEOSWKTWriter_destroy_r handle handle
  | Call_GEOSWKBWriter_destroy_r handle handle
  | Call_GEOSGeomTypeId_r handle handle
  | Call_GEOSSetSRID_r handle handle "32 word"
  | Call_free

section \<open>The structs and the object heap\<close>

text \<open>
  \<open>RGeo_Globals\<close>, \<open>RGeo_FactoryData\<close> and \<open>RGeo_GeometryData\<close> are declared in
  \<open>factory.h\<close>; the fields are those \<open>factory.c\<close> reads and writes. A C \<open>int\<close> is
  a \<open>32 word\<close> read in two's complement (\<open>sint\<close>). The factory's \<open>globals\<close> pointer is
  held as the struct it points to: \<open>factory.c\<close> never writes through it once a factory
  exists.
\<close>

record RGeo_Globals =
  geos_module :: VALUE
  feature_module :: VALUE
  geos_geometry :: VALUE
  geos_point :: VALUE
  geos_line_string :: VALUE
  geos_linear_ring :: VALUE
  geos_polygon :: VALUE
  geos_geometry_collection :: VALUE
  geos_multi_point :: VALUE
  geos_multi_line_string :: VALUE
  geos_multi_polygon :: VALUE

record RGeo_FactoryData =
  globals :: RGeo_Globals
  geos_context :: handle
  wkt_reader :: handle
  wkb_reader :: handle
  wkt_writer :: handle
  wkb_writer :: handle
  flags :: "32 word"
  srid :: "32 word"
  buffer_resolution :: "32 word"

text \<open>
  The field \<open>geos_context\<close> of \<open>RGeo_GeometryData\<close> is written \<open>geom_context\<close> here, a
  record field being a constant of its own.
\<close>

record RGeo_GeometryData =
  geom :: handle
  geom_context :: handle
  factory :: VALUE
  klasses :: VALUE

text \<open>
  A \<open>T_DATA\<close> object made by \<open>Data_Wrap_Struct\<close>: its class and the struct its data
  pointer leads to. The \<open>dfree\<close> function of the object is \<open>destroy_factory_func\<close>,
  \<open>destroy_geometry_func\<close> or \<open>destroy_globals_func\<close> according to the struct.
\<close>

datatype cdata =
    FactoryData RGeo_FactoryData
  | GeometryData RGeo_GeometryData
  | GlobalsData RGeo_Globals

record robject =
  obj_klass :: VALUE
  obj_data :: cdata

text \<open>
  The state: the \<open>T_DATA\<close> objects by address (\<open>RData a\<close> is the object \<open>heap ! a\<close>),
  the spatial-reference id the engine holds for each native geometry, and the calls made so
  far.
\<close>

record world =
  heap :: "robject list"
  geom_srid :: "nat \<Rightarrow> 32 word"
  calls :: "call list"

text \<open>
  What ends a function other than by returning: a read through a pointer that is
  \<open>NULL\<close> or leads to another kind of struct (undefined behaviour in C), and the Ruby
  exceptions that \<open>Check_Type\<close>, \<open>NUM2INT\<close>, \<open>rb_const_get_at\<close> and a called Ruby
  method raise.
\<close>

datatype fault = SegFault | TypeError | RangeError | NameError | RubyError

text \<open>
  The managed runtime is outside this repository as well. \<open>ALLOC\<close> says whether the
  \<open>ALLOC\<close> of the call returns storage (the code tests its result against \<open>NULL\<close>);
  \<open>rb_const_get_at\<close> looks a constant up in a class; \<open>rb_funcall\<close> runs a Ruby
  method, which may return a value and a changed state or raise.
\<close>

record ruby =
  ALLOC :: bool
  rb_const_get_at :: "VALUE \<Rightarrow> string \<Rightarrow> fault + VALUE"
  rb_funcall :: "world \<Rightarrow> VALUE \<Rightarrow> string \<Rightarrow> VALUE list \<Rightarrow> fault + VALUE \<times> world"

definition DATA_PTR :: "world \<Rightarrow> VALUE \<Rightarrow> fault + cdata" where
  "DATA_PTR w v =
     (case v of
        RData a \<Rightarrow> if a < length (heap w) then Inr (obj_data (heap w ! a)) else Inl SegFault
      | _ \<Rightarrow> Inl SegFault)"

definition RGEO_FACTORY_DATA_PTR :: "world \<Rightarrow> VALUE \<Rightarrow> fault + RGeo_FactoryData" where
  "RGEO_FACTORY_DATA_PTR w v =
     (case DATA_PTR w v of
        Inr (FactoryData d) \<Rightarrow> Inr d
      | _ \<Rightarrow> Inl SegFault)"

definition RGEO_GEOMETRY_DATA_PTR :: "world \<Rightarrow> VALUE \<Rightarrow> fault + RGeo_GeometryData" where
  "RGEO_GEOMETRY_DATA_PTR w v =
     (case DATA_PTR w v of
        Inr (GeometryData d) \<Rightarrow> Inr d
      | _ \<Rightarrow> Inl SegFault)"

text \<open>A write through the data pointer of the object \<open>v\<close>: the struct is replaced.\<close>

definition store_data :: "world \<Rightarrow> VALUE \<Rightarrow> cdata \<Rightarrow> world" where
  "store_data w v d =
     (case v of
        RData a \<Rightarrow> w\<lparr>heap := (heap w)[a := (heap w ! a)\<lparr>obj_data := d\<rparr>]\<rparr>
      | _ \<Rightarrow> w)"

text \<open>\<open>CLASS_OF\<close> on a \<open>T_DATA\<close> object.\<close>

definition CLASS_OF :: "world \<Rightarrow> VALUE \<Rightarrow> fault + VALUE" where
  "CLASS_OF w v =
     (case v of
        RData a \<Rightarrow> if a < length (heap w) then Inr (obj_klass (heap w ! a)) else Inl SegFault
      | _ \<Rightarrow> Inl SegFault)"

text \<open>\<open>Data_Wrap_Struct\<close>: a new object, at the next free address.\<close>

definition Data_Wrap_Struct :: "world \<Rightarrow> VALUE \<Rightarrow> cdata \<Rightarrow> VALUE \<times> world" where
  "Data_Wrap_Struct w k d =
     (RData (length (heap w)), w\<lparr>heap := heap w @ [\<lparr>obj_klass = k, obj_data = d\<rparr>]\<rparr>)"

definition log_call :: "world \<Rightarrow> call \<Rightarrow> world" where
  "log_call w c = w\<lparr>calls := calls w @ [c]\<rparr>"

text \<open>
  \<open>NUM2INT\<close> raises \<open>RangeError\<close> for an integer that does not fit a C \<open>int\<close> and
  \<open>TypeError\<close> for a value that is no number; \<open>INT2NUM\<close> is exact.
\<close>

definition NUM2INT :: "VALUE \<Rightarrow> fault + 32 word" where
  "NUM2INT v =
     (case v of
        RInteger i \<Rightarrow>
          if - (2 ^ 31) \<le> i \<and> i < 2 ^ 31 then Inr (word_of_int i) else Inl RangeError
      | _ \<Rightarrow> Inl TypeError)"

definition INT2NUM :: "32 word \<Rightarrow> VALUE" where
  "INT2NUM i = RInteger (sint i)"

text \<open>
  A parameter of a C function that has the name of a struct field is written with the
  suffix \<open>_arg\<close> below (\<open>geom_arg\<close>, \<open>factory_arg\<close>, \<open>srid_arg\<close>).
\<close>

section \<open>Destruction of a factory\<close>

text \<open>
  \<open>destroy_factory_func\<close> reads the struct it is given and makes calls only: its
  value is the calls it makes, in order.
\<close>

definition destroy_factory_func :: "RGeo_FactoryData \<Rightarrow> call list" where
  "destroy_factory_func d =
     (let context = geos_context d in
      (if wkt_reader d \<noteq> None then [Call_GEOSWKTReader_destroy_r context (wkt_reader d)] else []) @
      (if wkb_reader d \<noteq> None then [Call_GEOSWKBReader_destroy_r context (wkb_reader d)] else []) @
      (if wkt_writer d \<noteq> None then [Call_GEOSWKTWriter_destroy_r context (wkt_writer d)] else []) @
      (if wkb_writer d \<noteq> None then [Call_GEOSWKBWriter_destroy_r context (wkb_writer d)] else []) @
      [Call_finishGEOS_r context] @
      [Call_free])"

section \<open>Methods of the factory\<close>

definition method_factory_srid :: "world \<Rightarrow> VALUE \<Rightarrow> fault + VALUE \<times> world" where
  "method_factory_srid w self =
     (case RGEO_FACTORY_DATA_PTR w self of
        Inl f \<Rightarrow> Inl f
      | Inr d \<Rightarrow> Inr (INT2NUM (srid d), w))"

definition method_factory_buffer_resolution :: "world \<Rightarrow> VALUE \<Rightarrow> fault + VALUE \<times> world" where
  "method_factory_buffer_resolution w self =
     (case RGEO_FACTORY_DATA_PTR w self of
        Inl f \<Rightarrow> Inl f
      | Inr d \<Rightarrow> Inr (INT2NUM (buffer_resolution d), w))"

definition method_factory_flags :: "world \<Rightarrow> VALUE \<Rightarrow> fault + VALUE \<times> world" where
  "method_factory_flags w self =
     (case RGEO_FACTORY_DATA_PTR w self of
        Inl f \<Rightarrow> Inl f
      | Inr d \<Rightarrow> Inr (INT2NUM (flags d), w))"

definition cmethod_factory_create ::
  "engine \<Rightarrow> ruby \<Rightarrow> world \<Rightarrow> VALUE \<Rightarrow> VALUE \<Rightarrow> VALUE \<Rightarrow> VALUE \<Rightarrow> fault + VALUE \<times> world" where
  "cmethod_factory_create e rb w klass flags_arg srid_arg buffer_resolution_arg =
     (if ALLOC rb then
        (let context = initGEOS_r e; w1 = log_call w Call_initGEOS_r in
         if context \<noteq> None then
           (case rb_const_get_at rb klass ''INTERNAL_CGLOBALS'' of
              Inl f \<Rightarrow> Inl f
            | Inr wrapped_globals \<Rightarrow>
           (case DATA_PTR w1 wrapped_globals of
              Inr (GlobalsData g) \<Rightarrow>
                (case NUM2INT flags_arg of
                   Inl f \<Rightarrow> Inl f
                 | Inr fl \<Rightarrow>
                (case NUM2INT srid_arg of
                   Inl f \<Rightarrow> Inl f
                 | Inr sr \<Rightarrow>
                (case NUM2INT buffer_resolution_arg of
                   Inl f \<Rightarrow> Inl f
                 | Inr br \<Rightarrow>
                Inr (Data_Wrap_Struct w1 klass
                  (FactoryData
                    \<lparr>globals = g, geos_context = context,
                     wkt_reader = None, wkb_reader = None, wkt_writer = None, wkb_writer = None,
                     flags = fl, srid = sr, buffer_resolution = br\<rparr>)))))
            | _ \<Rightarrow> Inl SegFault))
         else Inr (Qnil, log_call w1 Call_free))
      else Inr (Qnil, w))"

section \<open>Wrapping a native geometry\<close>

text \<open>The engine call \<open>GEOSSetSRID_r\<close>: the geometry's spatial-reference id is assigned.\<close>

definition GEOSSetSRID_r :: "world \<Rightarrow> handle \<Rightarrow> nat \<Rightarrow> 32 word \<Rightarrow> world" where
  "GEOSSetSRID_r w context g s =
     log_call (w\<lparr>geom_srid := (geom_srid w)(g := s)\<rparr>) (Call_GEOSSetSRID_r context (Some g) s)"

text \<open>
  The \<open>switch\<close> of \<open>rgeo_wrap_geos_geometry\<close> on the geometry type id: the values of
  \<open>inferred_klass\<close> and \<open>is_collection\<close> after it.
\<close>

definition wrap_switch :: "RGeo_Globals \<Rightarrow> int \<Rightarrow> VALUE \<times> bool" where
  "wrap_switch g type_id =
     (if type_id = GEOS_POINT then (geos_point g, False)
      else if type_id = GEOS_LINESTRING then (geos_line_string g, False)
      else if type_id = GEOS_LINEARRING then (geos_linear_ring g, False)
      else if type_id = GEOS_POLYGON then (geos_polygon g, False)
      else if type_id = GEOS_MULTIPOINT then (geos_multi_point g, True)
      else if type_id = GEOS_MULTILINESTRING then (geos_multi_line_string g, True)
      else if type_id = GEOS_MULTIPOLYGON then (geos_multi_polygon g, True)
      else if type_id = GEOS_GEOMETRYCOLLECTION then (geos_geometry_collection g, True)
      else (geos_geometry g, False))"

text \<open>
  The block \<open>if (TYPE(klass) != T_CLASS) { ... }\<close>: the values of \<open>klass\<close> and
  \<open>klasses\<close> after it. \<open>factory_data\<close> is \<open>None\<close> when the pointer is \<open>NULL\<close>.
\<close>

definition wrap_infer ::
  "engine \<Rightarrow> world \<Rightarrow> RGeo_FactoryData option \<Rightarrow> handle \<Rightarrow> handle \<Rightarrow> VALUE \<Rightarrow>
   fault + (VALUE \<times> VALUE) \<times> world" where
  "wrap_infer e w factory_data factory_context geom_arg klass =
     (if rb_type klass \<noteq> T_CLASS then
        (case factory_data of
           None \<Rightarrow> Inl SegFault
         | Some fd \<Rightarrow>
             (let (inferred_klass, is_collection) =
                    wrap_switch (globals fd) (GEOSGeomTypeId_r e factory_context geom_arg);
                  w1 = log_call w (Call_GEOSGeomTypeId_r factory_context geom_arg)
              in Inr ((inferred_klass,
                       if rb_type klass = T_ARRAY \<and> is_collection then klass else Qnil), w1)))
      else Inr ((klass, Qnil), w))"

text \<open>The block \<open>if (data) { ... }\<close>, entered with the storage that \<open>ALLOC\<close> returned.\<close>

definition wrap_fill ::
  "world \<Rightarrow> VALUE \<Rightarrow> RGeo_FactoryData option \<Rightarrow> handle \<Rightarrow> handle \<Rightarrow> VALUE \<Rightarrow> VALUE \<Rightarrow>
   fault + VALUE \<times> world" where
  "wrap_fill w factory_arg factory_data factory_context geom_arg klass klasses_val =
     (case (case geom_arg of
              None \<Rightarrow> Inr w
            | Some g \<Rightarrow>
                (case factory_data of
                   None \<Rightarrow> Inl SegFault
                 | Some fd \<Rightarrow> Inr (GEOSSetSRID_r w factory_context g (srid fd)))) of
        Inl f \<Rightarrow> Inl f
      | Inr w1 \<Rightarrow>
          Inr (Data_Wrap_Struct w1 klass
            (GeometryData
              \<lparr>geom = geom_arg, geom_context = factory_context, factory = factory_arg,
               klasses = klasses_val\<rparr>)))"

definition rgeo_wrap_geos_geometry ::
  "engine \<Rightarrow> ruby \<Rightarrow> world \<Rightarrow> VALUE \<Rightarrow> handle \<Rightarrow> VALUE \<Rightarrow> fault + VALUE \<times> world" where
  "rgeo_wrap_geos_geometry e rb w factory_arg geom_arg klass =
     (if geom_arg \<noteq> None \<or> \<not> NIL_P klass then
        (case (if NIL_P factory_arg then Inr None
               else (case RGEO_FACTORY_DATA_PTR w factory_arg of
                       Inl f \<Rightarrow> Inl f
                     | Inr fd \<Rightarrow> Inr (Some fd))) of
           Inl f \<Rightarrow> Inl f
         | Inr factory_data \<Rightarrow>
             (let factory_context =
                    (case factory_data of Some fd \<Rightarrow> geos_context fd | None \<Rightarrow> None)
              in case wrap_infer e w factory_data factory_context geom_arg klass of
                   Inl f \<Rightarrow> Inl f
                 | Inr ((klass', klasses_val), w1) \<Rightarrow>
                     if ALLOC rb
                     then wrap_fill w1 factory_arg factory_data factory_context geom_arg klass'
                            klasses_val
                     else Inr (Qnil, w1)))
      else Inr (Qnil, w))"

section \<open>Parsing\<close>

definition method_factory_parse_wkt ::
  "engine \<Rightarrow> ruby \<Rightarrow> world \<Rightarrow> VALUE \<Rightarrow> VALUE \<Rightarrow> fault + VALUE \<times> world" where
  "method_factory_parse_wkt e rb w self str =
     (case str of
        RString text \<Rightarrow>
          (case RGEO_FACTORY_DATA_PTR w self of
             Inl f \<Rightarrow> Inl f
           | Inr self_data \<Rightarrow>
               (let self_context = geos_context self_data;
                    (wkt_reader', w1) =
                      (if wkt_reader self_data = None then
                         (let r = GEOSWKTReader_create_r e self_context
                          in (r, store_data
                                   (log_call w (Call_GEOSWKTReader_create_r self_context)) self
                                   (FactoryData (self_data\<lparr>wkt_reader := r\<rparr>))))
                       else (wkt_reader self_data, w))
                in if wkt_reader' \<noteq> None then
                     (let g = GEOSWKTReader_read_r e self_context wkt_reader' text;
                          w2 = log_call w1 (Call_GEOSWKTReader_read_r self_context wkt_reader' text)
                      in if g \<noteq> None then rgeo_wrap_geos_geometry e rb w2 self g Qnil
                         else Inr (Qnil, w2))
                   else Inr (Qnil, w1)))
      | _ \<Rightarrow> Inl TypeError)"

definition method_factory_parse_wkb ::
  "engine \<Rightarrow> ruby \<Rightarrow> world \<Rightarrow> VALUE \<Rightarrow> VALUE \<Rightarrow> fault + VALUE \<times> world" where
  "method_factory_parse_wkb e rb w self str =
     (case str of
        RString bytes \<Rightarrow>
          (case RGEO_FACTORY_DATA_PTR w self of
             Inl f \<Rightarrow> Inl f
           | Inr self_data \<Rightarrow>
               (let self_context = geos_context self_data;
                    (wkb_reader', w1) =
                      (if wkb_reader self_data = None then
                         (let r = GEOSWKBReader_create_r e self_context
                          in (r, store_data
                                   (log_call w (Call_GEOSWKBReader_create_r self_context)) self
                                   (FactoryData (self_data\<lparr>wkb_reader := r\<rparr>))))
                       else (wkb_reader self_data, w))
                in if wkb_reader' \<noteq> None then
                     (let g = GEOSWKBReader_read_r e self_context wkb_reader' bytes (length bytes);
                          w2 = log_call w1
                                 (Call_GEOSWKBReader_read_r self_context wkb_reader' bytes (length bytes))
                      in if g \<noteq> None then rgeo_wrap_geos_geometry e rb w2 self g Qnil
                         else Inr (Qnil, w2))
                   else Inr (Qnil, w1)))
      | _ \<Rightarrow> Inl TypeError)"

section \<open>Detaching a native geometry\<close>

text \<open>
  The out-parameter \<open>klasses\<close> (here \<open>klasses_arg\<close>) is \<open>None\<close> for a \<open>NULL\<close> pointer
  and \<open>Some v\<close> for a pointer to a variable of the caller that holds \<open>v\<close>. The function
  returns the native handle, what the variable holds at the end, and the state; when it is
  left by a fault, the value is the fault with what the variable holds at that moment.
\<close>

definition rgeo_convert_to_detached_geos_geometry ::
  "ruby \<Rightarrow> world \<Rightarrow> VALUE \<Rightarrow> VALUE \<Rightarrow> VALUE \<Rightarrow> VALUE option \<Rightarrow>
   fault \<times> VALUE option + (handle \<times> VALUE option) \<times> world" where
  "rgeo_convert_to_detached_geos_geometry rb w obj factory_arg type klasses_arg =
     (let klasses0 = (case klasses_arg of None \<Rightarrow> None | Some _ \<Rightarrow> Some Qnil) in
      case RGEO_FACTORY_DATA_PTR w factory_arg of
        Inl f \<Rightarrow> Inl (f, klasses0)
      | Inr fd \<Rightarrow>
      (case rb_funcall rb w (feature_module (globals fd)) ''cast''
              [obj, factory_arg, type, RSymbol ''force_new'', RSymbol ''keep_subtype''] of
         Inl f \<Rightarrow> Inl (f, klasses0)
       | Inr (object, w1) \<Rightarrow>
           if \<not> NIL_P object then
             (case RGEO_GEOMETRY_DATA_PTR w1 object of
                Inl f \<Rightarrow> Inl (f, klasses0)
              | Inr object_data \<Rightarrow>
             (case (case klasses0 of
                      None \<Rightarrow> Inr None
                    | Some _ \<Rightarrow>
                        if NIL_P (klasses object_data) then
                          (case CLASS_OF w1 object of
                             Inl f \<Rightarrow> Inl (f, Some (klasses object_data))
                           | Inr c \<Rightarrow> Inr (Some c))
                        else Inr (Some (klasses object_data))) of
                Inl fk \<Rightarrow> Inl fk
              | Inr klasses1 \<Rightarrow>
                  Inr ((geom object_data, klasses1),
                       store_data w1 object
                         (GeometryData
                           (object_data\<lparr>geom := None, geom_context := None,
                                         factory := Qnil, klasses := Qnil\<rparr>)))))
           else Inr ((None, klasses0), w1)))"

section \<open>Deep coordinate equality\<close>

text \<open>
  The \<open>for\<close> loop of \<open>rgeo_geos_coordseqs_eql\<close>, entered with \<open>result = Qtrue\<close>: the
  value is what \<open>result\<close> holds when the loop is left, by \<open>break\<close> or because
  \<open>i < len1\<close> fails.
\<close>

function coordseqs_loop ::
  "engine \<Rightarrow> handle \<Rightarrow> nat \<Rightarrow> nat \<Rightarrow> bool \<Rightarrow> 32 word \<Rightarrow> 32 word \<Rightarrow> VALUE" where
  "coordseqs_loop e context cs1 cs2 check_z i len1 =
     (if i < len1 then
        (case GEOSCoordSeq_getX_r e context cs1 i of
           None \<Rightarrow> Qnil
         | Some x1 \<Rightarrow>
        (case GEOSCoordSeq_getX_r e context cs2 i of
           None \<Rightarrow> Qnil
         | Some x2 \<Rightarrow>
        if double_eq x1 x2 then
          (case GEOSCoordSeq_getY_r e context cs1 i of
             None \<Rightarrow> Qnil
           | Some y1 \<Rightarrow>
          (case GEOSCoordSeq_getY_r e context cs2 i of
             None \<Rightarrow> Qnil
           | Some y2 \<Rightarrow>
          if double_eq y1 y2 then
            (if check_z then
               (case GEOSCoordSeq_getZ_r e context cs1 i of
                  None \<Rightarrow> Qnil
                | Some z1 \<Rightarrow>
               (case GEOSCoordSeq_getZ_r e context cs2 i of
                  None \<Rightarrow> Qnil
                | Some z2 \<Rightarrow>
               if \<not> double_eq z1 z2 then Qfalse
               else coordseqs_loop e context cs1 cs2 check_z (i + 1) len1))
             else coordseqs_loop e context cs1 cs2 check_z (i + 1) len1)
          else Qfalse))
        else Qfalse))
      else Qtrue)"
  by pat_completeness auto
termination
proof -
  have step: "unat len - unat (i + 1) < unat len - unat i" if lt: "i < len"
    for i len :: "32 word"
  proof -
    from lt have "i \<noteq> - 1"
      by (metis word_order.extremum_strict)
    then have "1 + i \<noteq> 0"
      by (metis add_eq_0_iff)
    then have "unat (i + 1) = Suc (unat i)"
      by (simp add: unatSuc add.commute)
    with lt show ?thesis
      by (simp add: word_less_nat_alt)
  qed
  show ?thesis
    by (relation "measure (\<lambda>(e, context, cs1, cs2, check_z, i, len1). unat len1 - unat i)")
       (auto intro: step)
qed

declare coordseqs_loop.simps [simp del]

definition rgeo_geos_coordseqs_eql ::
  "engine \<Rightarrow> handle \<Rightarrow> handle \<Rightarrow> handle \<Rightarrow> bool \<Rightarrow> VALUE" where
  "rgeo_geos_coordseqs_eql e context geom1 geom2 check_z =
     (case (geom1, geom2) of
        (Some g1, Some g2) \<Rightarrow>
          (case (GEOSGeom_getCoordSeq_r e context g1, GEOSGeom_getCoordSeq_r e context g2) of
             (Some cs1, Some cs2) \<Rightarrow>
               (case GEOSCoordSeq_getSize_r e context cs1 of
                  None \<Rightarrow> Qnil
                | Some len1 \<Rightarrow>
               (case GEOSCoordSeq_getSize_r e context cs2 of
                  None \<Rightarrow> Qnil
                | Some len2 \<Rightarrow>
               if len1 = len2 then coordseqs_loop e context cs1 cs2 check_z 0 len1
               else Qfalse))
           | _ \<Rightarrow> Qnil)
      | _ \<Rightarrow> Qnil)"


section \<open>The specification of the coordinate comparison\<close>

text \<open>
  The specification's \<open>coordinatesEqual\<close>, from its words: the lengths are compared
  first; then, index by index, X, then Y, then (if \<open>checkZ\<close>) Z, each with the exact
  equality of doubles. A comparison matches, mismatches, or cannot be made because a
  read failed. The first comparison that does not match decides: a mismatch gives
  \<open>false\<close>, a failed read \<open>indeterminate\<close> (\<open>Qnil\<close>); if all match the result is
  \<open>true\<close>. A missing handle, coordinate sequence or length gives \<open>indeterminate\<close>.
\<close>

datatype comparison = Match | Mismatch | ReadFailed

definition compare_component :: "double option \<Rightarrow> double option \<Rightarrow> comparison" where
  "compare_component r1 r2 =
     (case r1 of
        None \<Rightarrow> ReadFailed
      | Some v1 \<Rightarrow>
          (case r2 of
             None \<Rightarrow> ReadFailed
           | Some v2 \<Rightarrow> if double_eq v1 v2 then Match else Mismatch))"

definition comparisons_at ::
  "engine \<Rightarrow> handle \<Rightarrow> nat \<Rightarrow> nat \<Rightarrow> bool \<Rightarrow> 32 word \<Rightarrow> comparison list" where
  "comparisons_at e contextA csA csB checkZ i =
     [compare_component (GEOSCoordSeq_getX_r e contextA csA i) (GEOSCoordSeq_getX_r e contextA csB i),
      compare_component (GEOSCoordSeq_getY_r e contextA csA i) (GEOSCoordSeq_getY_r e contextA csB i)] @
     (if checkZ
      then [compare_component (GEOSCoordSeq_getZ_r e contextA csA i)
                              (GEOSCoordSeq_getZ_r e contextA csB i)]
      else [])"

fun verdict :: "comparison list \<Rightarrow> VALUE" where
  "verdict [] = Qtrue"
| "verdict (Match # cs) = verdict cs"
| "verdict (Mismatch # cs) = Qfalse"
| "verdict (ReadFailed # cs) = Qnil"

definition coordinatesEqual ::
  "engine \<Rightarrow> handle \<Rightarrow> handle \<Rightarrow> handle \<Rightarrow> bool \<Rightarrow> VALUE" where
  "coordinatesEqual e contextA handleA handleB checkZ =
     (case handleA of None \<Rightarrow> Qnil | Some a \<Rightarrow>
     (case handleB of None \<Rightarrow> Qnil | Some b \<Rightarrow>
     (case GEOSGeom_getCoordSeq_r e contextA a of None \<Rightarrow> Qnil | Some csA \<Rightarrow>
     (case GEOSGeom_getCoordSeq_r e contextA b of None \<Rightarrow> Qnil | Some csB \<Rightarrow>
     (case GEOSCoordSeq_getSize_r e contextA csA of None \<Rightarrow> Qnil | Some lenA \<Rightarrow>
     (case GEOSCoordSeq_getSize_r e contextA csB of None \<Rightarrow> Qnil | Some lenB \<Rightarrow>
        if lenA \<noteq> lenB then Qfalse
        else verdict (concat (map (comparisons_at e contextA csA csB checkZ)
                                  (map of_nat [0..<unat lenA])))))))))"

text \<open>
  All components at index \<open>i\<close> are equal: both X reads succeed with equal values, both Y
  reads too, and, if \<open>checkZ\<close>, both Z reads.
\<close>

definition components_equal ::
  "engine \<Rightarrow> handle \<Rightarrow> nat \<Rightarrow> nat \<Rightarrow> bool \<Rightarrow> 32 word \<Rightarrow> bool" where
  "components_equal e contextA csA csB checkZ i =
     ((\<exists>x1 x2. GEOSCoordSeq_getX_r e contextA csA i = Some x1 \<and>
               GEOSCoordSeq_getX_r e contextA csB i = Some x2 \<and> double_eq x1 x2) \<and>
      (\<exists>y1 y2. GEOSCoordSeq_getY_r e contextA csA i = Some y1 \<and>
               GEOSCoordSeq_getY_r e contextA csB i = Some y2 \<and> double_eq y1 y2) \<and>
      (checkZ \<longrightarrow>
       (\<exists>z1 z2. GEOSCoordSeq_getZ_r e contextA csA i = Some z1 \<and>
                GEOSCoordSeq_getZ_r e contextA csB i = Some z2 \<and> double_eq z1 z2)))"

section \<open>The specification of type inference\<close>

text \<open>
  The kinds of the specification's registry, the kind that a type id of the engine stands
  for, the class that the registry holds for a kind, and the four collection kinds.
\<close>

datatype geometry_kind =
  Point | LineString | LinearRing | Polygon | MultiPoint | MultiLineString | MultiPolygon
  | GeometryCollection | Generic

definition kind_of_type_id :: "int \<Rightarrow> geometry_kind" where
  "kind_of_type_id t =
     (if t = 0 then Point else if t = 1 then LineString else if t = 2 then LinearRing
      else if t = 3 then Polygon else if t = 4 then MultiPoint else if t = 5 then MultiLineString
      else if t = 6 then MultiPolygon else if t = 7 then GeometryCollection else Generic)"

fun registered_class :: "RGeo_Globals \<Rightarrow> geometry_kind \<Rightarrow> VALUE" where
  "registered_class g Point = geos_point g"
| "registered_class g LineString = geos_line_string g"
| "registered_class g LinearRing = geos_linear_ring g"
| "registered_class g Polygon = geos_polygon g"
| "registered_class g MultiPoint = geos_multi_point g"
| "registered_class g MultiLineString = geos_multi_line_string g"
| "registered_class g MultiPolygon = geos_multi_polygon g"
| "registered_class g GeometryCollection = geos_geometry_collection g"
| "registered_class g Generic = geos_geometry g"

definition is_collection_kind :: "geometry_kind \<Rightarrow> bool" where
  "is_collection_kind k =
     (k = MultiPoint \<or> k = MultiLineString \<or> k = MultiPolygon \<or> k = GeometryCollection)"

section \<open>The specification of factory destruction\<close>

text \<open>
  The specification's release order: the helper handles that are present, in the order
  wkt-reader, wkb-reader, wkt-writer, wkb-writer.
\<close>

definition helper_releases :: "RGeo_FactoryData \<Rightarrow> call list" where
  "helper_releases d =
     map (\<lambda>(release, h). release (geos_context d) h)
       (filter (\<lambda>(release, h). h \<noteq> None)
          [(Call_GEOSWKTReader_destroy_r, wkt_reader d),
           (Call_GEOSWKBReader_destroy_r, wkb_reader d),
           (Call_GEOSWKTWriter_destroy_r, wkt_writer d),
           (Call_GEOSWKBWriter_destroy_r, wkb_writer d)])"

section \<open>The specification of parsing\<close>

text \<open>
  The reader that a parse call works with: the cached handle, or else the one it creates.
  The engine calls that wrapping a parsed geometry makes.
\<close>

definition reader_in_use :: "handle \<Rightarrow> handle \<Rightarrow> handle" where
  "reader_in_use cached created = (case cached of None \<Rightarrow> created | Some r \<Rightarrow> Some r)"

definition wrap_parsed_calls :: "ruby \<Rightarrow> RGeo_FactoryData \<Rightarrow> handle \<Rightarrow> call list" where
  "wrap_parsed_calls rb fd g =
     (if g = None then []
      else Call_GEOSGeomTypeId_r (geos_context fd) g #
           (if ALLOC rb then [Call_GEOSSetSRID_r (geos_context fd) g (srid fd)] else []))"

text \<open>
  What the specification asks of one parse call on a factory \<open>fd\<close>, given the reader the
  call works with, the native geometry \<open>g\<close> that the engine's parse gives, and its type
  id: the call returns (it raises no fault); afterwards the factory holds \<open>fd'\<close>; the engine
  calls added are \<open>made\<close>; the result is a wrapper exactly when there is a reader, the
  parse gave a geometry and the wrapper's storage was allocated, and is empty otherwise;
  and the wrapper is a new object, of the class inferred from the type id, that holds
  \<open>g\<close> for this factory with no member-classes and with the factory's SRID assigned.
\<close>

definition parse_outcome ::
  "ruby \<Rightarrow> world \<Rightarrow> VALUE \<Rightarrow> RGeo_FactoryData \<Rightarrow> handle \<Rightarrow> handle \<Rightarrow> int \<Rightarrow> call list \<Rightarrow>
   RGeo_FactoryData \<Rightarrow> fault + VALUE \<times> world \<Rightarrow> bool" where
  "parse_outcome rb w self fd reader g type_id made fd' result =
     (\<exists>v w'.
        result = Inr (v, w') \<and>
        RGEO_FACTORY_DATA_PTR w' self = Inr fd' \<and>
        calls w' = calls w @ made \<and>
        (v \<noteq> Qnil \<longleftrightarrow> reader \<noteq> None \<and> g \<noteq> None \<and> ALLOC rb) \<and>
        (v \<noteq> Qnil \<longrightarrow>
           v = RData (length (heap w)) \<and>
           CLASS_OF w' v = Inr (registered_class (globals fd) (kind_of_type_id type_id)) \<and>
           RGEO_GEOMETRY_DATA_PTR w' v =
             Inr \<lparr>geom = g, geom_context = geos_context fd, factory = self, klasses = Qnil\<rparr> \<and>
           (\<forall>gg. g = Some gg \<longrightarrow> geom_srid w' gg = srid fd)))"

section \<open>Concrete inputs\<close>

text \<open>
  An engine with three line strings of two points each. The doubles are bit patterns:
  \<open>0x3FF0000000000000\<close> is 1, \<open>0x4000000000000000\<close> is 2, \<open>0x4008000000000000\<close> is 3,
  \<open>0\<close> is +0 and \<open>0x8000000000000000\<close> is -0. Geometries 101 and 102 are
  \<open>(1 2 +0, 3 2 +0)\<close> and \<open>(1 2 -0, 3 2 -0)\<close>, geometry 103 is \<open>(1 2 +0, 3 3 +0)\<close>;
  geometry 100 is the point that the reader parses from \<open>POINT (1 2)\<close>, for which this
  engine gives no coordinate sequence, and geometry 104 is a collection.
\<close>

definition engine0 :: engine where
  "engine0 =
     \<lparr>initGEOS_r = Some 1,
      GEOSWKTReader_create_r = (\<lambda>c. Some 10),
      GEOSWKBReader_create_r = (\<lambda>c. Some 11),
      GEOSWKTReader_read_r = (\<lambda>c r s. if s = ''POINT (1 2)'' then Some 100 else None),
      GEOSWKBReader_read_r = (\<lambda>c r s n. if n = 21 then Some 100 else None),
      GEOSGeomTypeId_r = (\<lambda>c g. if g = Some 100 then 0 else if g = Some 104 then 7 else 1),
      GEOSGeom_getCoordSeq_r = (\<lambda>c g. if g = 101 \<or> g = 102 \<or> g = 103 then Some g else None),
      GEOSCoordSeq_getSize_r = (\<lambda>c cs. Some 2),
      GEOSCoordSeq_getX_r =
        (\<lambda>c cs i. Some (if i = 0 then 0x3FF0000000000000 else 0x4008000000000000)),
      GEOSCoordSeq_getY_r =
        (\<lambda>c cs i. Some (if cs = 103 \<and> i = 1 then 0x4008000000000000 else 0x4000000000000000)),
      GEOSCoordSeq_getZ_r =
        (\<lambda>c cs i. if cs = 102 then Some 0x8000000000000000 else Some 0)\<rparr>"

text \<open>
  A registry, a factory with two of its four helper handles, and a state with the factory
  at address 0, the wrapped registry at address 1 and a polygon wrapper at address 2. In
  \<open>ruby0\<close> the allocation succeeds, in \<open>ruby_nomem\<close> it fails.
\<close>

definition globals0 :: RGeo_Globals where
  "globals0 =
     \<lparr>geos_module = RModule ''RGeo::Geos'',
      feature_module = RModule ''RGeo::Feature'',
      geos_geometry = RClass ''GeometryImpl'',
      geos_point = RClass ''PointImpl'',
      geos_line_string = RClass ''LineStringImpl'',
      geos_linear_ring = RClass ''LinearRingImpl'',
      geos_polygon = RClass ''PolygonImpl'',
      geos_geometry_collection = RClass ''GeometryCollectionImpl'',
      geos_multi_point = RClass ''MultiPointImpl'',
      geos_multi_line_string = RClass ''MultiLineStringImpl'',
      geos_multi_polygon = RClass ''MultiPolygonImpl''\<rparr>"

definition factory0 :: RGeo_FactoryData where
  "factory0 =
     \<lparr>globals = globals0, geos_context = Some 1,
      wkt_reader = None, wkb_reader = Some 11, wkt_writer = Some 12, wkb_writer = None,
      flags = 0, srid = 4326, buffer_resolution = 8\<rparr>"

definition world0 :: world where
  "world0 =
     \<lparr>heap =
        [\<lparr>obj_klass = RClass ''Factory'', obj_data = FactoryData factory0\<rparr>,
         \<lparr>obj_klass = RClass ''Object'', obj_data = GlobalsData globals0\<rparr>,
         \<lparr>obj_klass = RClass ''PolygonImpl'',
          obj_data = GeometryData
            \<lparr>geom = Some 105, geom_context = Some 1, factory = RData 0, klasses = Qnil\<rparr>\<rparr>],
      geom_srid = (\<lambda>g. 0),
      calls = []\<rparr>"

definition ruby0 :: ruby where
  "ruby0 =
     \<lparr>ALLOC = True,
      rb_const_get_at = (\<lambda>k n. if n = ''INTERNAL_CGLOBALS'' then Inr (RData 1) else Inl NameError),
      rb_funcall =
        (\<lambda>w recv m args.
           case args of
             RData a # _ \<Rightarrow> if m = ''cast'' \<and> 2 \<le> a then Inr (RData a, w) else Inr (Qnil, w)
           | _ \<Rightarrow> Inr (Qnil, w))\<rparr>"

definition ruby_nomem :: ruby where
  "ruby_nomem = ruby0\<lparr>ALLOC := False\<rparr>"

text \<open>
  \<open>world1\<close> has one more object, at address 3: the wrapper of a collection that holds
  member-classes. The \<open>cast\<close> of \<open>ruby0\<close> gives back the object it is given when
  that is at address 2 or above, and nothing otherwise.
\<close>

definition world1 :: world where
  "world1 =
     world0\<lparr>heap := heap world0 @
       [\<lparr>obj_klass = RClass ''GeometryCollectionImpl'',
         obj_data = GeometryData
           \<lparr>geom = Some 104, geom_context = Some 1, factory = RData 0,
            klasses = RArray [RClass ''PointImpl'', RClass ''PolygonImpl'']\<rparr>\<rparr>]\<rparr>"

section \<open>Properties of the coordinate comparison\<close>

lemma unat_succ_below: "i < len \<Longrightarrow> unat (i + 1) = Suc (unat i)"
  for i len :: "32 word"
proof -
  assume lt: "i < len"
  then have "i \<noteq> - 1"
    by (metis word_order.extremum_strict)
  then have "1 + i \<noteq> 0"
    by (metis add_eq_0_iff)
  then show ?thesis
    by (simp add: unatSuc add.commute)
qed

lemma coordseqs_loop_unfold:
  "i < len1 \<Longrightarrow>
   coordseqs_loop e c cs1 cs2 check_z i len1 =
     (case verdict (comparisons_at e c cs1 cs2 check_z i) of
        Qtrue \<Rightarrow> coordseqs_loop e c cs1 cs2 check_z (i + 1) len1
      | v \<Rightarrow> v)"
  apply (subst coordseqs_loop.simps)
  apply (simp only: comparisons_at_def compare_component_def if_True)
  apply (cases "GEOSCoordSeq_getX_r e c cs1 i"; simp)
  apply (cases "GEOSCoordSeq_getX_r e c cs2 i"; simp)
  apply (cases "GEOSCoordSeq_getY_r e c cs1 i"; simp)
  apply (cases "GEOSCoordSeq_getY_r e c cs2 i"; simp)
  apply (cases "GEOSCoordSeq_getZ_r e c cs1 i"; simp)
  apply (cases "GEOSCoordSeq_getZ_r e c cs2 i"; simp)
  done

lemma verdict_append:
  "verdict (xs @ ys) = (case verdict xs of Qtrue \<Rightarrow> verdict ys | v \<Rightarrow> v)"
  by (induction xs rule: verdict.induct) simp_all

text \<open>The loop from \<open>i\<close> on decides as the comparisons of the indices \<open>i, ..., len1 - 1\<close> do.\<close>

lemma coordseqs_loop_verdict:
  "coordseqs_loop e c cs1 cs2 check_z i len1 =
     verdict (concat (map (comparisons_at e c cs1 cs2 check_z)
                          (map of_nat [unat i..<unat len1])))"
proof (induction "unat len1 - unat i" arbitrary: i)
  case 0
  then have "\<not> i < len1" by (simp add: word_less_nat_alt)
  then show ?case using 0 by (subst coordseqs_loop.simps) simp
next
  case (Suc n)
  then have lt: "i < len1" by (simp add: word_less_nat_alt)
  then have lt': "unat i < unat len1" by (simp add: word_less_nat_alt)
  have step: "unat (i + 1) = Suc (unat i)"
    by (rule unat_succ_below [OF lt])
  have ih: "coordseqs_loop e c cs1 cs2 check_z (i + 1) len1 =
     verdict (concat (map (comparisons_at e c cs1 cs2 check_z)
                          (map of_nat [unat (i + 1)..<unat len1])))"
    using Suc.hyps(2) step by (intro Suc.hyps(1)) simp
  have split: "[unat i..<unat len1] = unat i # [unat (i + 1)..<unat len1]"
    using lt' step by (simp add: upt_conv_Cons)
  show ?case
    by (simp only: coordseqs_loop_unfold [OF lt] ih split list.map concat.simps
                   verdict_append of_nat_unat ucast_id)
qed

lemma coordseqs_eql_spec:
  "rgeo_geos_coordseqs_eql e c geom1 geom2 check_z = coordinatesEqual e c geom1 geom2 check_z"
  by (simp add: rgeo_geos_coordseqs_eql_def coordinatesEqual_def coordseqs_loop_verdict
           split: option.splits)

lemma compare_component_Match:
  "compare_component r1 r2 = Match \<longleftrightarrow> (\<exists>v1 v2. r1 = Some v1 \<and> r2 = Some v2 \<and> double_eq v1 v2)"
  by (simp add: compare_component_def split: option.splits)

lemma verdict_Qtrue: "verdict xs = Qtrue \<longleftrightarrow> (\<forall>x \<in> set xs. x = Match)"
  by (induction xs rule: verdict.induct) simp_all

lemma verdict_tristate: "verdict xs = Qtrue \<or> verdict xs = Qfalse \<or> verdict xs = Qnil"
  by (induction xs rule: verdict.induct) simp_all

lemma comparisons_at_Match:
  "(\<forall>x \<in> set (comparisons_at e c csA csB checkZ i). x = Match) \<longleftrightarrow>
   components_equal e c csA csB checkZ i"
  by (simp add: comparisons_at_def components_equal_def compare_component_Match)

lemma verdict_all_Qtrue:
  "verdict (concat (map (comparisons_at e c csA csB checkZ) (map of_nat [0..<unat len]))) = Qtrue \<longleftrightarrow>
   (\<forall>i < len. components_equal e c csA csB checkZ i)"
  for len :: "32 word"
proof -
  have "(\<forall>n < unat len. components_equal e c csA csB checkZ (of_nat n)) \<longleftrightarrow>
        (\<forall>i < len. components_equal e c csA csB checkZ i)"
  proof
    assume h: "\<forall>n < unat len. components_equal e c csA csB checkZ (of_nat n)"
    show "\<forall>i < len. components_equal e c csA csB checkZ i"
    proof (intro allI impI)
      fix i assume "i < len"
      then have "unat i < unat len" by (simp add: word_less_nat_alt)
      with h have "components_equal e c csA csB checkZ (of_nat (unat i))" by blast
      then show "components_equal e c csA csB checkZ i" by simp
    qed
  next
    assume h: "\<forall>i < len. components_equal e c csA csB checkZ i"
    show "\<forall>n < unat len. components_equal e c csA csB checkZ (of_nat n)"
    proof (intro allI impI)
      fix n assume n: "n < unat len"
      moreover have "unat len < 2 ^ 32"
        using unsigned_less [of len] by simp
      ultimately have "unat (of_nat n :: 32 word) = n"
        by (simp add: unat_of_nat)
      with n have "(of_nat n :: 32 word) < len"
        by (simp add: word_less_nat_alt)
      with h show "components_equal e c csA csB checkZ (of_nat n)" by blast
    qed
  qed
  moreover have
    "verdict (concat (map (comparisons_at e c csA csB checkZ) (map of_nat [0..<unat len]))) = Qtrue \<longleftrightarrow>
     (\<forall>n < unat len. components_equal e c csA csB checkZ (of_nat n))"
    by (auto simp: verdict_Qtrue comparisons_at_Match)
  ultimately show ?thesis
    by simp
qed

lemma coordinatesEqual_Qtrue:
  "coordinatesEqual e c geom1 geom2 check_z = Qtrue \<longleftrightarrow>
   (\<exists>g1 g2 cs1 cs2 len.
      geom1 = Some g1 \<and> geom2 = Some g2 \<and>
      GEOSGeom_getCoordSeq_r e c g1 = Some cs1 \<and> GEOSGeom_getCoordSeq_r e c g2 = Some cs2 \<and>
      GEOSCoordSeq_getSize_r e c cs1 = Some len \<and> GEOSCoordSeq_getSize_r e c cs2 = Some len \<and>
      (\<forall>i < len. components_equal e c cs1 cs2 check_z i))"
  by (auto simp: coordinatesEqual_def verdict_all_Qtrue simp del: map_map split: option.splits)

lemma coordinatesEqual_tristate:
  "coordinatesEqual e c geom1 geom2 check_z = Qtrue \<or>
   coordinatesEqual e c geom1 geom2 check_z = Qfalse \<or>
   coordinatesEqual e c geom1 geom2 check_z = Qnil"
  using verdict_tristate by (simp add: coordinatesEqual_def split: option.splits)

lemma double_eq_sym: "double_eq a b = double_eq b a"
  by (auto simp: double_eq_def)

lemma compare_component_sym: "compare_component a b = compare_component b a"
  by (simp add: compare_component_def double_eq_sym split: option.splits)

lemma comparisons_at_sym:
  "comparisons_at e c cs1 cs2 check_z = comparisons_at e c cs2 cs1 check_z"
  by (rule ext) (simp add: comparisons_at_def compare_component_sym)

lemma coordseqs_loop_sym:
  "coordseqs_loop e c cs1 cs2 check_z i len1 = coordseqs_loop e c cs2 cs1 check_z i len1"
  by (simp only: coordseqs_loop_verdict comparisons_at_sym [of _ _ cs1 cs2])

text \<open>
  C1. \<open>rgeo_geos_coordseqs_eql\<close> is the specification's \<open>coordinatesEqual\<close>: it gives
  \<open>Qnil\<close> (indeterminate) when a handle is \<open>NULL\<close>, a coordinate sequence is missing or
  a length cannot be read, \<open>Qfalse\<close> when the lengths differ, and otherwise goes through
  the indices comparing X, then Y, then (if \<open>check_z\<close>) Z with the exact equality of
  doubles, giving \<open>Qfalse\<close> at the first mismatch and \<open>Qnil\<close> at the first failed
  read. The result is one of \<open>Qtrue\<close>, \<open>Qfalse\<close>, \<open>Qnil\<close>, and it is \<open>Qtrue\<close> exactly
  when both sequences exist with the same length and all compared components are equal.
\<close>

theorem coordseqs_eql_componentwise:
  "rgeo_geos_coordseqs_eql e c geom1 geom2 check_z = coordinatesEqual e c geom1 geom2 check_z \<and>
   (rgeo_geos_coordseqs_eql e c geom1 geom2 check_z = Qtrue \<or>
    rgeo_geos_coordseqs_eql e c geom1 geom2 check_z = Qfalse \<or>
    rgeo_geos_coordseqs_eql e c geom1 geom2 check_z = Qnil) \<and>
   (geom1 = None \<or> geom2 = None \<longrightarrow> rgeo_geos_coordseqs_eql e c geom1 geom2 check_z = Qnil) \<and>
   (\<forall>g1 g2.
      geom1 = Some g1 \<and> geom2 = Some g2 \<and>
      (GEOSGeom_getCoordSeq_r e c g1 = None \<or> GEOSGeom_getCoordSeq_r e c g2 = None) \<longrightarrow>
      rgeo_geos_coordseqs_eql e c geom1 geom2 check_z = Qnil) \<and>
   (\<forall>g1 g2 cs1 cs2 len1 len2.
      geom1 = Some g1 \<and> geom2 = Some g2 \<and>
      GEOSGeom_getCoordSeq_r e c g1 = Some cs1 \<and> GEOSGeom_getCoordSeq_r e c g2 = Some cs2 \<and>
      GEOSCoordSeq_getSize_r e c cs1 = Some len1 \<and> GEOSCoordSeq_getSize_r e c cs2 = Some len2 \<and>
      len1 \<noteq> len2 \<longrightarrow>
      rgeo_geos_coordseqs_eql e c geom1 geom2 check_z = Qfalse) \<and>
   (rgeo_geos_coordseqs_eql e c geom1 geom2 check_z = Qtrue \<longleftrightarrow>
    (\<exists>g1 g2 cs1 cs2 len.
       geom1 = Some g1 \<and> geom2 = Some g2 \<and>
       GEOSGeom_getCoordSeq_r e c g1 = Some cs1 \<and> GEOSGeom_getCoordSeq_r e c g2 = Some cs2 \<and>
       GEOSCoordSeq_getSize_r e c cs1 = Some len \<and> GEOSCoordSeq_getSize_r e c cs2 = Some len \<and>
       (\<forall>i < len. components_equal e c cs1 cs2 check_z i)))"
proof -
  have nil1: "geom1 = None \<or> geom2 = None \<longrightarrow> coordinatesEqual e c geom1 geom2 check_z = Qnil"
    by (auto simp: coordinatesEqual_def split: option.splits)
  have nil2: "\<forall>g1 g2.
      geom1 = Some g1 \<and> geom2 = Some g2 \<and>
      (GEOSGeom_getCoordSeq_r e c g1 = None \<or> GEOSGeom_getCoordSeq_r e c g2 = None) \<longrightarrow>
      coordinatesEqual e c geom1 geom2 check_z = Qnil"
    by (auto simp: coordinatesEqual_def split: option.splits)
  have len: "\<forall>g1 g2 cs1 cs2 len1 len2.
      geom1 = Some g1 \<and> geom2 = Some g2 \<and>
      GEOSGeom_getCoordSeq_r e c g1 = Some cs1 \<and> GEOSGeom_getCoordSeq_r e c g2 = Some cs2 \<and>
      GEOSCoordSeq_getSize_r e c cs1 = Some len1 \<and> GEOSCoordSeq_getSize_r e c cs2 = Some len2 \<and>
      len1 \<noteq> len2 \<longrightarrow>
      coordinatesEqual e c geom1 geom2 check_z = Qfalse"
    by (simp add: coordinatesEqual_def)
  show ?thesis
    using coordinatesEqual_Qtrue [of e c geom1 geom2 check_z]
          coordinatesEqual_tristate [of e c geom1 geom2 check_z] nil1 nil2 len
    by (simp only: coordseqs_eql_spec simp_thms)
qed


lemma coordinatesEqual_engine0:
  "coordinatesEqual engine0 (Some 1) (Some 101) (Some 102) True = Qtrue"
  "coordinatesEqual engine0 (Some 1) (Some 101) (Some 103) True = Qfalse"
  "coordinatesEqual engine0 (Some 1) (Some 101) (Some 103) False = Qfalse"
  "coordinatesEqual engine0 (Some 1) (Some 101) (Some 100) True = Qnil"
  "coordinatesEqual engine0 (Some 1) None (Some 101) True = Qnil"
  by code_simp+

theorem coordseqs_eql_componentwise_witness:
  "rgeo_geos_coordseqs_eql engine0 (Some 1) (Some 101) (Some 102) True = Qtrue \<and>
   components_equal engine0 (Some 1) 101 102 True 1 \<and>
   rgeo_geos_coordseqs_eql engine0 (Some 1) (Some 101) (Some 103) True = Qfalse \<and>
   rgeo_geos_coordseqs_eql engine0 (Some 1) (Some 101) (Some 103) False = Qfalse \<and>
   rgeo_geos_coordseqs_eql engine0 (Some 1) (Some 101) (Some 100) True = Qnil \<and>
   rgeo_geos_coordseqs_eql engine0 (Some 1) None (Some 101) True = Qnil"
proof -
  have eq: "rgeo_geos_coordseqs_eql engine0 (Some 1) g1 g2 z = coordinatesEqual engine0 (Some 1) g1 g2 z"
    for g1 g2 z
    using coordseqs_eql_componentwise [of engine0 "Some 1" g1 g2 z] by simp
  have "rgeo_geos_coordseqs_eql engine0 (Some 1) (Some 101) (Some 102) True = Qtrue"
    by (simp only: eq coordinatesEqual_engine0)
  with coordseqs_eql_componentwise [of engine0 "Some 1" "Some 101" "Some 102" True]
  obtain cs1 cs2 len where
    cs: "GEOSGeom_getCoordSeq_r engine0 (Some 1) 101 = Some cs1"
        "GEOSGeom_getCoordSeq_r engine0 (Some 1) 102 = Some cs2"
        "GEOSCoordSeq_getSize_r engine0 (Some 1) cs1 = Some len" and
    eqs: "\<forall>i < len. components_equal engine0 (Some 1) cs1 cs2 True i"
    by auto
  from cs have "cs1 = 101" "cs2 = 102" "len = 2"
    by (simp_all add: engine0_def)
  with eqs have "\<forall>i < 2. components_equal engine0 (Some 1) 101 102 True i"
    by simp
  then have "components_equal engine0 (Some 1) 101 102 True 1"
    by simp
  then show ?thesis
    by (simp only: eq coordinatesEqual_engine0 simp_thms)
qed

text \<open>
  C8. \<open>rgeo_geos_coordseqs_eql\<close> is symmetric in the two geometries, for each of its
  three outcomes.
\<close>

theorem coordseqs_eql_symmetric:
  "rgeo_geos_coordseqs_eql e c geom1 geom2 check_z = rgeo_geos_coordseqs_eql e c geom2 geom1 check_z"
  by (auto simp: rgeo_geos_coordseqs_eql_def coordseqs_loop_sym split: option.splits)

theorem coordseqs_eql_symmetric_witness:
  "rgeo_geos_coordseqs_eql engine0 (Some 1) (Some 103) (Some 101) True = Qfalse \<and>
   rgeo_geos_coordseqs_eql engine0 (Some 1) (Some 100) (Some 101) True = Qnil \<and>
   rgeo_geos_coordseqs_eql engine0 (Some 1) (Some 102) (Some 101) True = Qtrue"
  using coordseqs_eql_symmetric [of engine0 "Some 1" "Some 103" "Some 101" True]
        coordseqs_eql_symmetric [of engine0 "Some 1" "Some 100" "Some 101" True]
        coordseqs_eql_symmetric [of engine0 "Some 1" "Some 102" "Some 101" True]
  by (simp only: coordseqs_eql_spec coordinatesEqual_engine0 simp_thms)

section \<open>Properties of wrapping\<close>

lemmas GEOS_type_ids =
  GEOS_POINT_def GEOS_LINESTRING_def GEOS_LINEARRING_def GEOS_POLYGON_def GEOS_MULTIPOINT_def
  GEOS_MULTILINESTRING_def GEOS_MULTIPOLYGON_def GEOS_GEOMETRYCOLLECTION_def

lemma wrap_switch_registry:
  "wrap_switch g t = (registered_class g (kind_of_type_id t), is_collection_kind (kind_of_type_id t))"
  by (simp add: wrap_switch_def kind_of_type_id_def is_collection_kind_def GEOS_type_ids)

lemma factory_ptr_not_nil: "RGEO_FACTORY_DATA_PTR w v = Inr fd \<Longrightarrow> v \<noteq> Qnil"
  by (auto simp: RGEO_FACTORY_DATA_PTR_def DATA_PTR_def)

lemma DATA_PTR_Data_Wrap_Struct:
  "Data_Wrap_Struct w k d = (v, w') \<Longrightarrow>
   v = RData (length (heap w)) \<and> DATA_PTR w' v = Inr d \<and> CLASS_OF w' v = Inr k \<and>
   calls w' = calls w \<and> geom_srid w' = geom_srid w"
  by (auto simp: Data_Wrap_Struct_def DATA_PTR_def CLASS_OF_def)

text \<open>Wrap on a factory object: what it returns, step by step.\<close>

lemma wrap_on_factory:
  assumes "RGEO_FACTORY_DATA_PTR w factory_arg = Inr fd"
  shows "rgeo_wrap_geos_geometry e rb w factory_arg geom_arg klass =
     (if geom_arg = None \<and> klass = Qnil then Inr (Qnil, w)
      else
        (let kind = kind_of_type_id (GEOSGeomTypeId_r e (geos_context fd) geom_arg);
             w1 = (if rb_type klass \<noteq> T_CLASS
                   then log_call w (Call_GEOSGeomTypeId_r (geos_context fd) geom_arg) else w);
             w2 = (case geom_arg of None \<Rightarrow> w1
                   | Some g \<Rightarrow> GEOSSetSRID_r w1 (geos_context fd) g (srid fd))
         in if ALLOC rb then
              Inr (Data_Wrap_Struct w2
                     (if rb_type klass \<noteq> T_CLASS then registered_class (globals fd) kind else klass)
                     (GeometryData
                        \<lparr>geom = geom_arg, geom_context = geos_context fd, factory = factory_arg,
                         klasses = (if rb_type klass = T_ARRAY \<and> is_collection_kind kind
                                    then klass else Qnil)\<rparr>))
            else Inr (Qnil, w1)))"
  using assms factory_ptr_not_nil [OF assms]
  by (auto simp: rgeo_wrap_geos_geometry_def wrap_infer_def wrap_fill_def NIL_P_def
                 wrap_switch_registry Let_def split: option.splits)


lemma factory0_ptr: "RGEO_FACTORY_DATA_PTR world0 (RData 0) = Inr factory0"
  by (simp add: RGEO_FACTORY_DATA_PTR_def DATA_PTR_def world0_def)

lemma heap_GEOSSetSRID_r [simp]: "heap (GEOSSetSRID_r w c g s) = heap w"
  by (simp add: GEOSSetSRID_r_def log_call_def)

lemma heap_log_call [simp]: "heap (log_call w c) = heap w"
  by (simp add: log_call_def)

lemma wrap_returns_wrapper:
  assumes "RGEO_FACTORY_DATA_PTR w factory_arg = Inr fd"
    and "geom_arg \<noteq> None \<or> klass \<noteq> Qnil" and "ALLOC rb"
  shows "\<exists>w'. rgeo_wrap_geos_geometry e rb w factory_arg geom_arg klass =
           Inr (RData (length (heap w)), w')"
  using assms(2,3)
  by (auto simp: wrap_on_factory [OF assms(1)] Let_def Data_Wrap_Struct_def split: option.splits)

lemma world0_heap: "length (heap world0) = 3"
  by (simp add: world0_def)

lemma ruby0_ALLOC: "ALLOC ruby0"
  by (simp add: ruby0_def)

lemma wrap_result_inferred:
  assumes "rb_type klass \<noteq> T_CLASS"
    and "rgeo_wrap_geos_geometry e rb w factory_arg geom_arg klass = Inr (v, w')"
    and "v \<noteq> Qnil"
  shows "\<exists>fd gd kind.
           RGEO_FACTORY_DATA_PTR w factory_arg = Inr fd \<and>
           kind = kind_of_type_id (GEOSGeomTypeId_r e (geos_context fd) geom_arg) \<and>
           CLASS_OF w' v = Inr (registered_class (globals fd) kind) \<and>
           RGEO_GEOMETRY_DATA_PTR w' v = Inr gd \<and>
           klasses gd = (if rb_type klass = T_ARRAY \<and> is_collection_kind kind then klass else Qnil) \<and>
           (rb_type klass = T_ARRAY \<longrightarrow> (klasses gd = klass \<longleftrightarrow> is_collection_kind kind))"
proof -
  from assms(2,3) have live: "geom_arg \<noteq> None \<or> klass \<noteq> Qnil"
    by (auto simp: rgeo_wrap_geos_geometry_def NIL_P_def split: if_splits)
  from assms obtain fd where fd: "RGEO_FACTORY_DATA_PTR w factory_arg = Inr fd"
    by (cases "RGEO_FACTORY_DATA_PTR w factory_arg")
       (auto simp: rgeo_wrap_geos_geometry_def wrap_infer_def split: if_splits)
  define kind where "kind = kind_of_type_id (GEOSGeomTypeId_r e (geos_context fd) geom_arg)"
  from assms(2,3) live assms(1) have alloc: "ALLOC rb"
    by (auto simp: wrap_on_factory [OF fd] Let_def split: if_splits)
  define w2 where "w2 = (case geom_arg of None \<Rightarrow> log_call w (Call_GEOSGeomTypeId_r (geos_context fd) geom_arg)
                   | Some g \<Rightarrow> GEOSSetSRID_r (log_call w (Call_GEOSGeomTypeId_r (geos_context fd) geom_arg)) (geos_context fd) g (srid fd))"
  define gd where "gd = \<lparr>geom = geom_arg, geom_context = geos_context fd, factory = factory_arg,
                         klasses = (if rb_type klass = T_ARRAY \<and> is_collection_kind kind
                                    then klass else Qnil)\<rparr>"
  have "Data_Wrap_Struct w2 (registered_class (globals fd) kind) (GeometryData gd) = (v, w')"
    using assms(1,2) live alloc
    by (auto simp: wrap_on_factory [OF fd] Let_def kind_def w2_def gd_def)
  from DATA_PTR_Data_Wrap_Struct [OF this]
  have "CLASS_OF w' v = Inr (registered_class (globals fd) kind)"
    and "RGEO_GEOMETRY_DATA_PTR w' v = Inr gd"
    by (auto simp: RGEO_GEOMETRY_DATA_PTR_def)
  moreover have "rb_type klass = T_ARRAY \<longrightarrow> (klasses gd = klass \<longleftrightarrow> is_collection_kind kind)"
    by (cases klass) (simp_all add: gd_def)
  moreover have "klasses gd = (if rb_type klass = T_ARRAY \<and> is_collection_kind kind then klass else Qnil)"
    by (simp add: gd_def)
  ultimately show ?thesis
    using fd kind_def by blast
qed

text \<open>
  C3. When the class hint is not a class, \<open>rgeo_wrap_geos_geometry\<close> infers the class
  of the wrapper from the kind of the native handle, through the registry of the factory:
  the classes for Point, LineString, LinearRing, Polygon, MultiPoint, MultiLineString,
  MultiPolygon and GeometryCollection, and the generic class for every other type id.
  On a factory, with a native handle and storage from \<open>ALLOC\<close>, the call returns such a
  wrapper, a new object that holds the handle. Whenever a call with such a hint returns a
  wrapper, that wrapper has the inferred class. Its member-classes are the hint when the
  hint is an array and the kind is one of the four collection kinds, and \<open>Qnil\<close>
  otherwise; so an array hint is retained exactly when the kind is a collection kind.
\<close>

theorem wrap_infers_class:
  "(rb_type klass \<noteq> T_CLASS \<and> RGEO_FACTORY_DATA_PTR w factory_arg = Inr fd \<and> ALLOC rb \<longrightarrow>
    (\<exists>w1 gd kind.
       rgeo_wrap_geos_geometry e rb w factory_arg (Some g) klass =
         Inr (RData (length (heap w)), w1) \<and>
       kind = kind_of_type_id (GEOSGeomTypeId_r e (geos_context fd) (Some g)) \<and>
       CLASS_OF w1 (RData (length (heap w))) = Inr (registered_class (globals fd) kind) \<and>
       RGEO_GEOMETRY_DATA_PTR w1 (RData (length (heap w))) = Inr gd \<and>
       geom gd = Some g \<and> factory gd = factory_arg \<and>
       klasses gd = (if rb_type klass = T_ARRAY \<and> is_collection_kind kind then klass else Qnil) \<and>
       (rb_type klass = T_ARRAY \<longrightarrow> (klasses gd = klass \<longleftrightarrow> is_collection_kind kind)))) \<and>
   (rb_type klass \<noteq> T_CLASS \<and>
    rgeo_wrap_geos_geometry e rb w factory_arg geom_arg klass = Inr (v, w') \<and> v \<noteq> Qnil \<longrightarrow>
    (\<exists>fd gd kind.
       RGEO_FACTORY_DATA_PTR w factory_arg = Inr fd \<and>
       kind = kind_of_type_id (GEOSGeomTypeId_r e (geos_context fd) geom_arg) \<and>
       CLASS_OF w' v = Inr (registered_class (globals fd) kind) \<and>
       RGEO_GEOMETRY_DATA_PTR w' v = Inr gd \<and>
       klasses gd = (if rb_type klass = T_ARRAY \<and> is_collection_kind kind then klass else Qnil) \<and>
       (rb_type klass = T_ARRAY \<longrightarrow> (klasses gd = klass \<longleftrightarrow> is_collection_kind kind))))"
proof (rule conjI; rule impI)
  assume a: "rb_type klass \<noteq> T_CLASS \<and> RGEO_FACTORY_DATA_PTR w factory_arg = Inr fd \<and> ALLOC rb"
  then have t: "rb_type klass \<noteq> T_CLASS" and fd: "RGEO_FACTORY_DATA_PTR w factory_arg = Inr fd"
    and al: "ALLOC rb"
    by simp_all
  define kind where "kind = kind_of_type_id (GEOSGeomTypeId_r e (geos_context fd) (Some g))"
  define gd where
    "gd = \<lparr>geom = Some g, geom_context = geos_context fd, factory = factory_arg,
           klasses = (if rb_type klass = T_ARRAY \<and> is_collection_kind kind then klass else Qnil)\<rparr>"
  define w2 where
    "w2 = GEOSSetSRID_r (log_call w (Call_GEOSGeomTypeId_r (geos_context fd) (Some g)))
            (geos_context fd) g (srid fd)"
  have r: "rgeo_wrap_geos_geometry e rb w factory_arg (Some g) klass =
           Inr (Data_Wrap_Struct w2 (registered_class (globals fd) kind) (GeometryData gd))"
    using t al by (simp add: wrap_on_factory [OF fd] Let_def kind_def gd_def w2_def)
  obtain v w1 where
    d: "Data_Wrap_Struct w2 (registered_class (globals fd) kind) (GeometryData gd) = (v, w1)"
    by (cases "Data_Wrap_Struct w2 (registered_class (globals fd) kind) (GeometryData gd)")
  from DATA_PTR_Data_Wrap_Struct [OF d]
  have v: "v = RData (length (heap w))"
    and c: "CLASS_OF w1 v = Inr (registered_class (globals fd) kind)"
    and p: "RGEO_GEOMETRY_DATA_PTR w1 v = Inr gd"
    by (auto simp: RGEO_GEOMETRY_DATA_PTR_def w2_def)
  have k: "rb_type klass = T_ARRAY \<longrightarrow> (klasses gd = klass \<longleftrightarrow> is_collection_kind kind)"
    by (cases klass) (simp_all add: gd_def)
  have "rgeo_wrap_geos_geometry e rb w factory_arg (Some g) klass =
          Inr (RData (length (heap w)), w1)"
    using r d v by simp
  moreover have "geom gd = Some g" "factory gd = factory_arg"
    "klasses gd = (if rb_type klass = T_ARRAY \<and> is_collection_kind kind then klass else Qnil)"
    by (simp_all add: gd_def)
  ultimately show "\<exists>w1 gd kind.
       rgeo_wrap_geos_geometry e rb w factory_arg (Some g) klass =
         Inr (RData (length (heap w)), w1) \<and>
       kind = kind_of_type_id (GEOSGeomTypeId_r e (geos_context fd) (Some g)) \<and>
       CLASS_OF w1 (RData (length (heap w))) = Inr (registered_class (globals fd) kind) \<and>
       RGEO_GEOMETRY_DATA_PTR w1 (RData (length (heap w))) = Inr gd \<and>
       geom gd = Some g \<and> factory gd = factory_arg \<and>
       klasses gd = (if rb_type klass = T_ARRAY \<and> is_collection_kind kind then klass else Qnil) \<and>
       (rb_type klass = T_ARRAY \<longrightarrow> (klasses gd = klass \<longleftrightarrow> is_collection_kind kind))"
    using c p k v kind_def by blast
next
  assume "rb_type klass \<noteq> T_CLASS \<and>
    rgeo_wrap_geos_geometry e rb w factory_arg geom_arg klass = Inr (v, w') \<and> v \<noteq> Qnil"
  then show "\<exists>fd gd kind.
       RGEO_FACTORY_DATA_PTR w factory_arg = Inr fd \<and>
       kind = kind_of_type_id (GEOSGeomTypeId_r e (geos_context fd) geom_arg) \<and>
       CLASS_OF w' v = Inr (registered_class (globals fd) kind) \<and>
       RGEO_GEOMETRY_DATA_PTR w' v = Inr gd \<and>
       klasses gd = (if rb_type klass = T_ARRAY \<and> is_collection_kind kind then klass else Qnil) \<and>
       (rb_type klass = T_ARRAY \<longrightarrow> (klasses gd = klass \<longleftrightarrow> is_collection_kind kind))"
    using wrap_result_inferred [of klass e rb w factory_arg geom_arg v w'] by blast
qed

theorem wrap_infers_class_witness:
  "rb_type Qnil \<noteq> T_CLASS \<and>
   rb_type (RArray [RClass ''PointImpl'', RClass ''PolygonImpl'']) \<noteq> T_CLASS \<and>
   RGEO_FACTORY_DATA_PTR world0 (RData 0) = Inr factory0 \<and> ALLOC ruby0 \<and>
   (\<exists>w1 gd. rgeo_wrap_geos_geometry engine0 ruby0 world0 (RData 0) (Some 100) Qnil =
              Inr (RData 3, w1) \<and>
            CLASS_OF w1 (RData 3) = Inr (RClass ''PointImpl'') \<and>
            RGEO_GEOMETRY_DATA_PTR w1 (RData 3) = Inr gd \<and>
            geom gd = Some 100 \<and> klasses gd = Qnil) \<and>
   (\<exists>w1 gd. rgeo_wrap_geos_geometry engine0 ruby0 world0 (RData 0) (Some 100)
              (RArray [RClass ''PointImpl'', RClass ''PolygonImpl'']) = Inr (RData 3, w1) \<and>
            CLASS_OF w1 (RData 3) = Inr (RClass ''PointImpl'') \<and>
            RGEO_GEOMETRY_DATA_PTR w1 (RData 3) = Inr gd \<and>
            geom gd = Some 100 \<and> klasses gd = Qnil) \<and>
   (\<exists>w1 gd. rgeo_wrap_geos_geometry engine0 ruby0 world0 (RData 0) (Some 104)
              (RArray [RClass ''PointImpl'', RClass ''PolygonImpl'']) = Inr (RData 3, w1) \<and>
            CLASS_OF w1 (RData 3) = Inr (RClass ''GeometryCollectionImpl'') \<and>
            RGEO_GEOMETRY_DATA_PTR w1 (RData 3) = Inr gd \<and>
            geom gd = Some 104 \<and>
            klasses gd = RArray [RClass ''PointImpl'', RClass ''PolygonImpl''])"
proof -
  let ?k = "RArray [RClass ''PointImpl'', RClass ''PolygonImpl'']"
  have ids: "kind_of_type_id (GEOSGeomTypeId_r engine0 (geos_context factory0) (Some 100)) = Point"
    "kind_of_type_id (GEOSGeomTypeId_r engine0 (geos_context factory0) (Some 104)) =
       GeometryCollection"
    by (simp_all add: engine0_def kind_of_type_id_def)
  have cls: "geos_point (globals factory0) = RClass ''PointImpl''"
    "geos_geometry_collection (globals factory0) = RClass ''GeometryCollectionImpl''"
    by (simp_all add: factory0_def globals0_def)
  have "\<exists>w1 gd. rgeo_wrap_geos_geometry engine0 ruby0 world0 (RData 0) (Some 100) Qnil =
              Inr (RData 3, w1) \<and>
            CLASS_OF w1 (RData 3) = Inr (RClass ''PointImpl'') \<and>
            RGEO_GEOMETRY_DATA_PTR w1 (RData 3) = Inr gd \<and>
            geom gd = Some 100 \<and> klasses gd = Qnil"
    using wrap_infers_class
            [where klass = Qnil and w = world0 and factory_arg = "RData 0" and fd = factory0
               and rb = ruby0 and e = engine0 and g = 100 and geom_arg = None and v = Qnil
               and w' = world0]
    by (auto simp: factory0_ptr ruby0_ALLOC world0_heap ids cls)
  moreover have "\<exists>w1 gd. rgeo_wrap_geos_geometry engine0 ruby0 world0 (RData 0) (Some 100) ?k =
              Inr (RData 3, w1) \<and>
            CLASS_OF w1 (RData 3) = Inr (RClass ''PointImpl'') \<and>
            RGEO_GEOMETRY_DATA_PTR w1 (RData 3) = Inr gd \<and>
            geom gd = Some 100 \<and> klasses gd = Qnil"
    using wrap_infers_class
            [where klass = ?k and w = world0 and factory_arg = "RData 0" and fd = factory0
               and rb = ruby0 and e = engine0 and g = 100 and geom_arg = None and v = Qnil
               and w' = world0]
    by (auto simp: factory0_ptr ruby0_ALLOC world0_heap ids cls is_collection_kind_def)
  moreover have "\<exists>w1 gd. rgeo_wrap_geos_geometry engine0 ruby0 world0 (RData 0) (Some 104) ?k =
              Inr (RData 3, w1) \<and>
            CLASS_OF w1 (RData 3) = Inr (RClass ''GeometryCollectionImpl'') \<and>
            RGEO_GEOMETRY_DATA_PTR w1 (RData 3) = Inr gd \<and>
            geom gd = Some 104 \<and> klasses gd = ?k"
    using wrap_infers_class
            [where klass = ?k and w = world0 and factory_arg = "RData 0" and fd = factory0
               and rb = ruby0 and e = engine0 and g = 104 and geom_arg = None and v = Qnil
               and w' = world0]
    by (auto simp: factory0_ptr ruby0_ALLOC world0_heap ids cls is_collection_kind_def)
  ultimately show ?thesis
    using factory0_ptr ruby0_ALLOC by simp
qed

text \<open>
  C4, as amended. Given a \<open>NULL\<close> native handle and a class as hint, with a factory
  argument that is \<open>Qnil\<close> or a factory, \<open>rgeo_wrap_geos_geometry\<close> does not fault and
  makes no engine call (no type lookup): when \<open>ALLOC\<close> returns storage the result is a
  new object of the hinted class whose native handle is \<open>NULL\<close>, and otherwise
  \<open>Qnil\<close> with the state unchanged. For every call, a result \<open>Qnil\<close> means that the
  allocation failed or that the native handle is \<open>NULL\<close> and the hint is \<open>Qnil\<close>.
\<close>

theorem wrap_null_handle_with_class:
  "(rb_type klass = T_CLASS \<and>
    (factory_arg = Qnil \<or> (\<exists>fd. RGEO_FACTORY_DATA_PTR w factory_arg = Inr fd)) \<longrightarrow>
    rgeo_wrap_geos_geometry e rb w factory_arg None klass =
      (if ALLOC rb then
         Inr (RData (length (heap w)),
              w\<lparr>heap := heap w @
                   [\<lparr>obj_klass = klass,
                     obj_data = GeometryData
                       \<lparr>geom = None,
                        geom_context =
                          (case RGEO_FACTORY_DATA_PTR w factory_arg of
                             Inr fd \<Rightarrow> geos_context fd | Inl _ \<Rightarrow> None),
                        factory = factory_arg, klasses = Qnil\<rparr>\<rparr>]\<rparr>)
       else Inr (Qnil, w))) \<and>
   (rgeo_wrap_geos_geometry e rb w factory_arg geom_arg klass = Inr (Qnil, w') \<longrightarrow>
    \<not> ALLOC rb \<or> (geom_arg = None \<and> klass = Qnil))"
proof (intro conjI impI)
  assume a: "rb_type klass = T_CLASS \<and>
    (factory_arg = Qnil \<or> (\<exists>fd. RGEO_FACTORY_DATA_PTR w factory_arg = Inr fd))"
  then have k: "klass \<noteq> Qnil" by auto
  from a consider "factory_arg = Qnil" | fd where "RGEO_FACTORY_DATA_PTR w factory_arg = Inr fd"
    by blast
  then show "rgeo_wrap_geos_geometry e rb w factory_arg None klass =
      (if ALLOC rb then
         Inr (RData (length (heap w)),
              w\<lparr>heap := heap w @
                   [\<lparr>obj_klass = klass,
                     obj_data = GeometryData
                       \<lparr>geom = None,
                        geom_context =
                          (case RGEO_FACTORY_DATA_PTR w factory_arg of
                             Inr fd \<Rightarrow> geos_context fd | Inl _ \<Rightarrow> None),
                        factory = factory_arg, klasses = Qnil\<rparr>\<rparr>]\<rparr>)
       else Inr (Qnil, w))"
  proof cases
    case 1
    then have "RGEO_FACTORY_DATA_PTR w factory_arg = Inl SegFault"
      by (simp add: RGEO_FACTORY_DATA_PTR_def DATA_PTR_def)
    with 1 a k show ?thesis
      by (simp add: rgeo_wrap_geos_geometry_def wrap_infer_def wrap_fill_def NIL_P_def
                    Data_Wrap_Struct_def)
  next
    case 2
    with a k show ?thesis
      by (simp add: wrap_on_factory [OF 2] Let_def Data_Wrap_Struct_def)
  qed
next
  assume r: "rgeo_wrap_geos_geometry e rb w factory_arg geom_arg klass = Inr (Qnil, w')"
  show "\<not> ALLOC rb \<or> (geom_arg = None \<and> klass = Qnil)"
  proof (rule ccontr)
    assume "\<not> (\<not> ALLOC rb \<or> (geom_arg = None \<and> klass = Qnil))"
    with r show False
      by (auto simp: rgeo_wrap_geos_geometry_def wrap_fill_def NIL_P_def Data_Wrap_Struct_def
                     Let_def
               split: if_splits sum.splits option.splits prod.splits)
  qed
qed


lemma ruby_nomem_ALLOC: "\<not> ALLOC ruby_nomem"
  by (simp add: ruby_nomem_def)

theorem wrap_null_handle_with_class_witness:
  "rb_type (RClass ''PointImpl'') = T_CLASS \<and>
   RGEO_FACTORY_DATA_PTR world0 (RData 0) = Inr factory0 \<and>
   rgeo_wrap_geos_geometry engine0 ruby0 world0 (RData 0) None (RClass ''PointImpl'') =
     Inr (RData 3,
          world0\<lparr>heap := heap world0 @
            [\<lparr>obj_klass = RClass ''PointImpl'',
              obj_data = GeometryData
                \<lparr>geom = None, geom_context = Some 1, factory = RData 0, klasses = Qnil\<rparr>\<rparr>]\<rparr>) \<and>
   rgeo_wrap_geos_geometry engine0 ruby0 world0 Qnil None (RClass ''PointImpl'') =
     Inr (RData 3,
          world0\<lparr>heap := heap world0 @
            [\<lparr>obj_klass = RClass ''PointImpl'',
              obj_data = GeometryData
                \<lparr>geom = None, geom_context = None, factory = Qnil, klasses = Qnil\<rparr>\<rparr>]\<rparr>) \<and>
   rgeo_wrap_geos_geometry engine0 ruby_nomem world0 (RData 0) None (RClass ''PointImpl'') =
     Inr (Qnil, world0) \<and>
   \<not> ALLOC ruby_nomem"
  using wrap_null_handle_with_class
          [of "RClass ''PointImpl''" "RData 0" world0 engine0 ruby0 None world0]
        wrap_null_handle_with_class
          [of "RClass ''PointImpl''" Qnil world0 engine0 ruby0 None world0]
        wrap_null_handle_with_class
          [of "RClass ''PointImpl''" "RData 0" world0 engine0 ruby_nomem None world0]
  by (simp add: factory0_ptr ruby0_ALLOC ruby_nomem_ALLOC world0_heap
                RGEO_FACTORY_DATA_PTR_def [of world0 Qnil] DATA_PTR_def [of world0 Qnil]
                factory0_def)

text \<open>
  The claim C4 as stated fails: with a \<open>NULL\<close> handle and the hint \<open>Qnil\<close> the result is
  empty although no allocation failed (none was attempted).
\<close>

theorem wrap_empty_without_allocation_failure:
  "ALLOC ruby0 \<and>
   rgeo_wrap_geos_geometry engine0 ruby0 world0 (RData 0) None Qnil = Inr (Qnil, world0)"
  by (simp add: ruby0_ALLOC rgeo_wrap_geos_geometry_def NIL_P_def)

text \<open>
  C5, as amended. On a factory, with a native handle \<open>g\<close> and storage from \<open>ALLOC\<close>,
  \<open>rgeo_wrap_geos_geometry\<close> returns and has assigned the factory's \<open>srid\<close> to \<open>g\<close>,
  whatever id \<open>g\<close> had, and to no other geometry. When the native handle is \<open>NULL\<close>, or
  \<open>ALLOC\<close> returns no storage, no id is assigned: the ids are unchanged and no
  \<open>GEOSSetSRID_r\<close> call is added.
\<close>

theorem wrap_sets_srid:
  "(RGEO_FACTORY_DATA_PTR w factory_arg = Inr fd \<and> ALLOC rb \<longrightarrow>
    (\<exists>v w'. rgeo_wrap_geos_geometry e rb w factory_arg (Some g) klass = Inr (v, w') \<and>
            geom_srid w' = (geom_srid w)(g := srid fd) \<and>
            Call_GEOSSetSRID_r (geos_context fd) (Some g) (srid fd) \<in> set (calls w'))) \<and>
   (rgeo_wrap_geos_geometry e rb w factory_arg geom_arg klass = Inr (v, w') \<and>
    (geom_arg = None \<or> \<not> ALLOC rb) \<longrightarrow>
    geom_srid w' = geom_srid w \<and>
    (\<forall>c h s. Call_GEOSSetSRID_r c h s \<in> set (calls w') \<longrightarrow>
             Call_GEOSSetSRID_r c h s \<in> set (calls w)))"
proof (rule conjI; rule impI)
  assume a: "RGEO_FACTORY_DATA_PTR w factory_arg = Inr fd \<and> ALLOC rb"
  then have fd: "RGEO_FACTORY_DATA_PTR w factory_arg = Inr fd" and al: "ALLOC rb"
    by simp_all
  show "\<exists>v w'. rgeo_wrap_geos_geometry e rb w factory_arg (Some g) klass = Inr (v, w') \<and>
            geom_srid w' = (geom_srid w)(g := srid fd) \<and>
            Call_GEOSSetSRID_r (geos_context fd) (Some g) (srid fd) \<in> set (calls w')"
    using al
    by (simp add: wrap_on_factory [OF fd] Let_def Data_Wrap_Struct_def GEOSSetSRID_r_def
                  log_call_def)
next
  assume a: "rgeo_wrap_geos_geometry e rb w factory_arg geom_arg klass = Inr (v, w') \<and>
    (geom_arg = None \<or> \<not> ALLOC rb)"
  then show "geom_srid w' = geom_srid w \<and>
    (\<forall>c h s. Call_GEOSSetSRID_r c h s \<in> set (calls w') \<longrightarrow>
             Call_GEOSSetSRID_r c h s \<in> set (calls w))"
    by (auto simp: rgeo_wrap_geos_geometry_def wrap_infer_def wrap_fill_def Let_def
                   Data_Wrap_Struct_def log_call_def
             split: if_splits sum.splits option.splits prod.splits)
qed


theorem wrap_sets_srid_witness:
  "RGEO_FACTORY_DATA_PTR world0 (RData 0) = Inr factory0 \<and> ALLOC ruby0 \<and>
   geom_srid world0 100 = 0 \<and>
   (\<exists>v w'. rgeo_wrap_geos_geometry engine0 ruby0 world0 (RData 0) (Some 100) Qnil = Inr (v, w') \<and>
           geom_srid w' 100 = 4326) \<and>
   (\<exists>w'. rgeo_wrap_geos_geometry engine0 ruby0 world0 (RData 0) None (RClass ''PointImpl'') =
           Inr (RData 3, w') \<and>
         geom_srid w' = geom_srid world0)"
proof -
  obtain w1 where
    r: "rgeo_wrap_geos_geometry engine0 ruby0 world0 (RData 0) None (RClass ''PointImpl'') =
        Inr (RData 3, w1)"
    using wrap_returns_wrapper [OF factory0_ptr _ ruby0_ALLOC, of None "RClass ''PointImpl''" engine0]
    by (auto simp: world0_heap)
  have "geom_srid w1 = geom_srid world0"
    using wrap_sets_srid [where w = world0 and factory_arg = "RData 0" and rb = ruby0
                            and e = engine0 and geom_arg = None and klass = "RClass ''PointImpl''"
                            and v = "RData 3" and w' = w1] r
    by simp
  moreover have "\<exists>v w'. rgeo_wrap_geos_geometry engine0 ruby0 world0 (RData 0) (Some 100) Qnil = Inr (v, w') \<and>
           geom_srid w' 100 = 4326"
    using wrap_sets_srid [where w = world0 and factory_arg = "RData 0" and fd = factory0
                            and rb = ruby0 and e = engine0 and g = 100 and klass = Qnil
                            and geom_arg = None and v = Qnil and w' = world0]
    by (auto simp: factory0_ptr ruby0_ALLOC factory0_def)
  moreover have "geom_srid world0 100 = 0"
    by (simp add: world0_def)
  ultimately show ?thesis
    using r factory0_ptr ruby0_ALLOC by blast
qed

text \<open>
  The claim C5 as stated fails: when \<open>ALLOC\<close> returns no storage, the id of a non-empty
  handle stays what it was (here 0, the factory's being 4326).
\<close>

theorem wrap_srid_not_set_on_allocation_failure:
  "RGEO_FACTORY_DATA_PTR world0 (RData 0) = Inr factory0 \<and> srid factory0 = 4326 \<and>
   rgeo_wrap_geos_geometry engine0 ruby_nomem world0 (RData 0) (Some 100) Qnil =
     Inr (Qnil, log_call world0 (Call_GEOSGeomTypeId_r (Some 1) (Some 100))) \<and>
   geom_srid (log_call world0 (Call_GEOSGeomTypeId_r (Some 1) (Some 100))) 100 = 0"
proof -
  have "srid factory0 = 4326"
    by (simp add: factory0_def)
  moreover have "rgeo_wrap_geos_geometry engine0 ruby_nomem world0 (RData 0) (Some 100) Qnil =
     Inr (Qnil, log_call world0 (Call_GEOSGeomTypeId_r (Some 1) (Some 100)))"
    by (simp add: wrap_on_factory [OF factory0_ptr] Let_def ruby_nomem_ALLOC factory0_def)
  moreover have "geom_srid (log_call world0 (Call_GEOSGeomTypeId_r (Some 1) (Some 100))) 100 = 0"
    by (simp add: log_call_def world0_def)
  ultimately show ?thesis
    using factory0_ptr by blast
qed

section \<open>Properties of factory destruction\<close>

text \<open>
  C7. Whichever of the four helper handles are present, \<open>destroy_factory_func\<close> releases
  exactly those, in the order wkt-reader, wkb-reader, wkt-writer, wkb-writer, then
  finishes the context, then frees the struct. It reads nothing but the struct it is
  given, so there is no state of the handles in which it faults.
\<close>

theorem destroy_factory_order:
  "destroy_factory_func d =
     helper_releases d @ [Call_finishGEOS_r (geos_context d), Call_free]"
  by (simp add: destroy_factory_func_def helper_releases_def Let_def)

theorem destroy_factory_order_witness:
  "destroy_factory_func factory0 =
     [Call_GEOSWKBReader_destroy_r (Some 1) (Some 11),
      Call_GEOSWKTWriter_destroy_r (Some 1) (Some 12),
      Call_finishGEOS_r (Some 1), Call_free] \<and>
   destroy_factory_func (factory0\<lparr>wkb_reader := None, wkt_writer := None\<rparr>) =
     [Call_finishGEOS_r (Some 1), Call_free] \<and>
   destroy_factory_func (factory0\<lparr>wkt_reader := Some 10, wkb_writer := Some 13\<rparr>) =
     [Call_GEOSWKTReader_destroy_r (Some 1) (Some 10),
      Call_GEOSWKBReader_destroy_r (Some 1) (Some 11),
      Call_GEOSWKTWriter_destroy_r (Some 1) (Some 12),
      Call_GEOSWKBWriter_destroy_r (Some 1) (Some 13),
      Call_finishGEOS_r (Some 1), Call_free]"
  using destroy_factory_order [of factory0]
        destroy_factory_order [of "factory0\<lparr>wkb_reader := None, wkt_writer := None\<rparr>"]
        destroy_factory_order [of "factory0\<lparr>wkt_reader := Some 10, wkb_writer := Some 13\<rparr>"]
  by (simp add: helper_releases_def factory0_def)

section \<open>Properties of construction and the accessors\<close>

lemma NUM2INT_INT2NUM:
  "NUM2INT (RInteger i) = Inr x \<Longrightarrow> INT2NUM x = RInteger i"
  by (auto simp: NUM2INT_def INT2NUM_def signed_of_int signed_take_bit_int_eq_self
           split: if_splits)

lemma NUM2INT_in_range:
  "- (2 ^ 31) \<le> i \<Longrightarrow> i < 2 ^ 31 \<Longrightarrow> \<exists>x. NUM2INT (RInteger i) = Inr x"
  by (simp add: NUM2INT_def)

lemma DATA_PTR_log_call [simp]: "DATA_PTR (log_call w c) v = DATA_PTR w v"
  by (cases v) (simp_all add: DATA_PTR_def)

text \<open>
  C9. When \<open>cmethod_factory_create\<close> is given integers and returns a factory, the three
  accessors on that factory return exactly those integers and leave the state as it is.
  For integers in the range of a C \<open>int\<close> it does return a factory, a new object,
  provided that the allocation and \<open>initGEOS_r\<close> succeed and the class holds the wrapped
  registry.
\<close>

theorem create_then_accessors:
  "(cmethod_factory_create e rb w klass (RInteger f) (RInteger s) (RInteger b) = Inr (fac, w') \<and>
    fac \<noteq> Qnil \<longrightarrow>
    method_factory_flags w' fac = Inr (RInteger f, w') \<and>
    method_factory_srid w' fac = Inr (RInteger s, w') \<and>
    method_factory_buffer_resolution w' fac = Inr (RInteger b, w')) \<and>
   (- (2 ^ 31) \<le> f \<and> f < 2 ^ 31 \<and> - (2 ^ 31) \<le> s \<and> s < 2 ^ 31 \<and> - (2 ^ 31) \<le> b \<and> b < 2 ^ 31 \<and>
    ALLOC rb \<and> initGEOS_r e \<noteq> None \<and>
    rb_const_get_at rb klass ''INTERNAL_CGLOBALS'' = Inr gv \<and> DATA_PTR w gv = Inr (GlobalsData g) \<longrightarrow>
    (\<exists>w1. cmethod_factory_create e rb w klass (RInteger f) (RInteger s) (RInteger b) =
            Inr (RData (length (heap w)), w1)))"
proof (rule conjI; rule impI)
  assume a: "cmethod_factory_create e rb w klass (RInteger f) (RInteger s) (RInteger b) = Inr (fac, w') \<and>
    fac \<noteq> Qnil"
  then obtain g fl sr br where
    n: "NUM2INT (RInteger f) = Inr fl" "NUM2INT (RInteger s) = Inr sr" "NUM2INT (RInteger b) = Inr br" and
    c: "Data_Wrap_Struct (log_call w Call_initGEOS_r) klass
          (FactoryData
            \<lparr>globals = g, geos_context = initGEOS_r e,
             wkt_reader = None, wkb_reader = None, wkt_writer = None, wkb_writer = None,
             flags = fl, srid = sr, buffer_resolution = br\<rparr>) = (fac, w')"
    by (auto simp: cmethod_factory_create_def Let_def split: if_splits sum.splits cdata.splits)
  from c have "RGEO_FACTORY_DATA_PTR w' fac = Inr
            \<lparr>globals = g, geos_context = initGEOS_r e,
             wkt_reader = None, wkb_reader = None, wkt_writer = None, wkb_writer = None,
             flags = fl, srid = sr, buffer_resolution = br\<rparr>"
    by (auto simp: Data_Wrap_Struct_def RGEO_FACTORY_DATA_PTR_def DATA_PTR_def)
  then show "method_factory_flags w' fac = Inr (RInteger f, w') \<and>
    method_factory_srid w' fac = Inr (RInteger s, w') \<and>
    method_factory_buffer_resolution w' fac = Inr (RInteger b, w')"
    using n
    by (simp add: method_factory_flags_def method_factory_srid_def
                  method_factory_buffer_resolution_def NUM2INT_INT2NUM)
next
  assume a: "- (2 ^ 31) \<le> f \<and> f < 2 ^ 31 \<and> - (2 ^ 31) \<le> s \<and> s < 2 ^ 31 \<and> - (2 ^ 31) \<le> b \<and> b < 2 ^ 31 \<and>
    ALLOC rb \<and> initGEOS_r e \<noteq> None \<and>
    rb_const_get_at rb klass ''INTERNAL_CGLOBALS'' = Inr gv \<and> DATA_PTR w gv = Inr (GlobalsData g)"
  then show "\<exists>w1. cmethod_factory_create e rb w klass (RInteger f) (RInteger s) (RInteger b) =
            Inr (RData (length (heap w)), w1)"
    by (auto simp: cmethod_factory_create_def Let_def NUM2INT_def Data_Wrap_Struct_def)
qed


theorem create_then_accessors_witness:
  "\<exists>w'. cmethod_factory_create engine0 ruby0 world0 (RClass ''Factory'')
           (RInteger (- 1)) (RInteger 4326) (RInteger 8) = Inr (RData 3, w') \<and>
        method_factory_flags w' (RData 3) = Inr (RInteger (- 1), w') \<and>
        method_factory_srid w' (RData 3) = Inr (RInteger 4326, w') \<and>
        method_factory_buffer_resolution w' (RData 3) = Inr (RInteger 8, w')"
proof -
  have "rb_const_get_at ruby0 (RClass ''Factory'') ''INTERNAL_CGLOBALS'' = Inr (RData 1)"
    by (simp add: ruby0_def)
  moreover have "DATA_PTR world0 (RData 1) = Inr (GlobalsData globals0)"
    by (simp add: DATA_PTR_def world0_def)
  moreover have "initGEOS_r engine0 \<noteq> None"
    by (simp add: engine0_def)
  ultimately obtain w1 where
    c: "cmethod_factory_create engine0 ruby0 world0 (RClass ''Factory'')
          (RInteger (- 1)) (RInteger 4326) (RInteger 8) = Inr (RData 3, w1)"
    using create_then_accessors
            [where e = engine0 and rb = ruby0 and w = world0 and klass = "RClass ''Factory''"
               and f = "- 1" and s = 4326 and b = 8 and gv = "RData 1" and g = globals0
               and fac = Qnil and w' = world0]
    by (auto simp: ruby0_ALLOC world0_heap)
  with create_then_accessors
         [where e = engine0 and rb = ruby0 and w = world0 and klass = "RClass ''Factory''"
            and f = "- 1" and s = 4326 and b = 8 and gv = "RData 1" and g = globals0
            and fac = "RData 3" and w' = w1]
  show ?thesis by simp
qed

section \<open>Properties of parsing\<close>

lemma FACTORY_PTR_log_call [simp]:
  "RGEO_FACTORY_DATA_PTR (log_call w c) v = RGEO_FACTORY_DATA_PTR w v"
  by (simp add: RGEO_FACTORY_DATA_PTR_def)

lemma FACTORY_PTR_RData:
  "RGEO_FACTORY_DATA_PTR w v = Inr fd \<Longrightarrow>
   \<exists>a. v = RData a \<and> a < length (heap w) \<and> obj_data (heap w ! a) = FactoryData fd"
  by (cases v)
     (auto simp: RGEO_FACTORY_DATA_PTR_def DATA_PTR_def split: if_splits cdata.splits)

lemma FACTORY_PTR_store_data:
  "RGEO_FACTORY_DATA_PTR w v = Inr fd \<Longrightarrow>
   RGEO_FACTORY_DATA_PTR (store_data w v (FactoryData fd')) v = Inr fd'"
proof -
  assume "RGEO_FACTORY_DATA_PTR w v = Inr fd"
  from FACTORY_PTR_RData [OF this] obtain a where "v = RData a" "a < length (heap w)"
    by blast
  then show ?thesis
    by (simp add: RGEO_FACTORY_DATA_PTR_def DATA_PTR_def store_data_def)
qed

lemma store_data_same:
  "RGEO_FACTORY_DATA_PTR w v = Inr fd \<Longrightarrow> store_data w v (FactoryData fd) = w"
  by (auto dest!: FACTORY_PTR_RData simp: store_data_def list_update_same_conv)

lemma heap_store_data [simp]: "length (heap (store_data w v d)) = length (heap w)"
  by (cases v) (simp_all add: store_data_def)

lemma calls_store_data [simp]: "calls (store_data w v d) = calls w"
  by (cases v) (simp_all add: store_data_def)

lemma FACTORY_PTR_wrap:
  assumes "RGEO_FACTORY_DATA_PTR w self = Inr fd"
    and "rgeo_wrap_geos_geometry e rb w factory_arg geom_arg klass = Inr (v, w')"
  shows "RGEO_FACTORY_DATA_PTR w' self = Inr fd"
proof -
  from FACTORY_PTR_RData [OF assms(1)] obtain a where
    a: "self = RData a" "a < length (heap w)" "obj_data (heap w ! a) = FactoryData fd"
    by blast
  have "\<exists>xs. heap w' = heap w @ xs"
    using assms(2)
    by (auto simp: rgeo_wrap_geos_geometry_def wrap_infer_def wrap_fill_def Let_def
                   Data_Wrap_Struct_def
             split: if_splits sum.splits option.splits prod.splits)
  with a show ?thesis
    by (auto simp: RGEO_FACTORY_DATA_PTR_def DATA_PTR_def nth_append)
qed

lemma wrap_parsed:
  assumes fd: "RGEO_FACTORY_DATA_PTR w self = Inr fd"
  shows "\<exists>v w'. rgeo_wrap_geos_geometry e rb w self (Some g) Qnil = Inr (v, w') \<and>
           RGEO_FACTORY_DATA_PTR w' self = Inr fd \<and>
           calls w' = calls w @ wrap_parsed_calls rb fd (Some g) \<and>
           (v \<noteq> Qnil \<longleftrightarrow> ALLOC rb) \<and>
           (v \<noteq> Qnil \<longrightarrow>
              v = RData (length (heap w)) \<and>
              CLASS_OF w' v =
                Inr (registered_class (globals fd)
                       (kind_of_type_id (GEOSGeomTypeId_r e (geos_context fd) (Some g)))) \<and>
              RGEO_GEOMETRY_DATA_PTR w' v =
                Inr \<lparr>geom = Some g, geom_context = geos_context fd, factory = self,
                     klasses = Qnil\<rparr> \<and>
              geom_srid w' g = srid fd)"
proof -
  obtain v w' where r: "rgeo_wrap_geos_geometry e rb w self (Some g) Qnil = Inr (v, w')"
    by (cases "ALLOC rb") (simp_all add: wrap_on_factory [OF fd] Let_def Data_Wrap_Struct_def)
  note p = FACTORY_PTR_wrap [OF fd r]
  show ?thesis
  proof (cases "ALLOC rb")
    case True
    with r show ?thesis using p
      by (auto simp: wrap_on_factory [OF fd] Let_def Data_Wrap_Struct_def wrap_parsed_calls_def
                     GEOSSetSRID_r_def log_call_def CLASS_OF_def RGEO_GEOMETRY_DATA_PTR_def
                     DATA_PTR_def)
  next
    case False
    with r show ?thesis using p
      by (auto simp: wrap_on_factory [OF fd] Let_def wrap_parsed_calls_def log_call_def)
  qed
qed

lemma parse_wkt_call:
  assumes fd: "RGEO_FACTORY_DATA_PTR w self = Inr fd"
  shows
    "let reader = reader_in_use (wkt_reader fd) (GEOSWKTReader_create_r e (geos_context fd));
         g = GEOSWKTReader_read_r e (geos_context fd) reader s
     in parse_outcome rb w self fd reader g (GEOSGeomTypeId_r e (geos_context fd) g)
          ((if wkt_reader fd = None then [Call_GEOSWKTReader_create_r (geos_context fd)] else []) @
           (if reader = None then []
            else Call_GEOSWKTReader_read_r (geos_context fd) reader s #
                 wrap_parsed_calls rb fd g))
          (fd\<lparr>wkt_reader := reader\<rparr>)
          (method_factory_parse_wkt e rb w self (RString s))"
proof -
  define reader where
    "reader = reader_in_use (wkt_reader fd) (GEOSWKTReader_create_r e (geos_context fd))"
  define g where "g = GEOSWKTReader_read_r e (geos_context fd) reader s"
  define fd1 where "fd1 = fd\<lparr>wkt_reader := reader\<rparr>"
  define w1 where
    "w1 = (if wkt_reader fd = None
           then store_data (log_call w (Call_GEOSWKTReader_create_r (geos_context fd))) self
                  (FactoryData fd1)
           else w)"
  define w2 where "w2 = log_call w1 (Call_GEOSWKTReader_read_r (geos_context fd) reader s)"
  have fd1_same: "wkt_reader fd \<noteq> None \<Longrightarrow> fd1 = fd"
    by (auto simp: fd1_def reader_def reader_in_use_def)
  have p1: "RGEO_FACTORY_DATA_PTR w1 self = Inr fd1"
    using fd fd1_same by (auto simp: w1_def FACTORY_PTR_store_data)
  then have p2: "RGEO_FACTORY_DATA_PTR w2 self = Inr fd1"
    by (simp add: w2_def)
  have c1: "calls w1 = calls w @
      (if wkt_reader fd = None then [Call_GEOSWKTReader_create_r (geos_context fd)] else [])"
    by (simp add: w1_def log_call_def)
  have h1: "length (heap w1) = length (heap w)"
    by (simp add: w1_def)
  have unfold: "method_factory_parse_wkt e rb w self (RString s) =
      (if reader \<noteq> None
       then if g \<noteq> None then rgeo_wrap_geos_geometry e rb w2 self g Qnil else Inr (Qnil, w2)
       else Inr (Qnil, w1))"
    using fd
    by (auto simp: method_factory_parse_wkt_def Let_def reader_def g_def w1_def w2_def fd1_def
                   reader_in_use_def)
  have facts: "geos_context fd1 = geos_context fd" "globals fd1 = globals fd" "srid fd1 = srid fd"
    by (simp_all add: fd1_def)
  have "parse_outcome rb w self fd reader g (GEOSGeomTypeId_r e (geos_context fd) g)
          ((if wkt_reader fd = None then [Call_GEOSWKTReader_create_r (geos_context fd)] else []) @
           (if reader = None then []
            else Call_GEOSWKTReader_read_r (geos_context fd) reader s #
                 wrap_parsed_calls rb fd g))
          fd1
          (method_factory_parse_wkt e rb w self (RString s))"
  proof (cases "reader = None")
    case True
    then show ?thesis using p1 c1 by (simp add: unfold parse_outcome_def)
  next
    case r: False
    show ?thesis
    proof (cases g)
      case None
      then show ?thesis using r p2 c1
        by (simp add: unfold parse_outcome_def w2_def log_call_def wrap_parsed_calls_def)
    next
      case (Some gg)
      from wrap_parsed [OF p2, of e rb gg] obtain v w' where
        "rgeo_wrap_geos_geometry e rb w2 self (Some gg) Qnil = Inr (v, w')"
        "RGEO_FACTORY_DATA_PTR w' self = Inr fd1"
        "calls w' = calls w2 @ wrap_parsed_calls rb fd1 (Some gg)"
        "v \<noteq> Qnil \<longleftrightarrow> ALLOC rb"
        "v \<noteq> Qnil \<longrightarrow>
              v = RData (length (heap w2)) \<and>
              CLASS_OF w' v =
                Inr (registered_class (globals fd1)
                       (kind_of_type_id (GEOSGeomTypeId_r e (geos_context fd1) (Some gg)))) \<and>
              RGEO_GEOMETRY_DATA_PTR w' v =
                Inr \<lparr>geom = Some gg, geom_context = geos_context fd1, factory = self,
                     klasses = Qnil\<rparr> \<and>
              geom_srid w' gg = srid fd1"
        by blast
      then show ?thesis using r Some c1 h1
        by (auto simp: unfold parse_outcome_def facts w2_def log_call_def wrap_parsed_calls_def)
    qed
  qed
  then show ?thesis
    unfolding Let_def reader_def g_def fd1_def .
qed

lemma parse_wkb_call:
  assumes fd: "RGEO_FACTORY_DATA_PTR w self = Inr fd"
  shows
    "let reader = reader_in_use (wkb_reader fd) (GEOSWKBReader_create_r e (geos_context fd));
         g = GEOSWKBReader_read_r e (geos_context fd) reader s (length s)
     in parse_outcome rb w self fd reader g (GEOSGeomTypeId_r e (geos_context fd) g)
          ((if wkb_reader fd = None then [Call_GEOSWKBReader_create_r (geos_context fd)] else []) @
           (if reader = None then []
            else Call_GEOSWKBReader_read_r (geos_context fd) reader s (length s) #
                 wrap_parsed_calls rb fd g))
          (fd\<lparr>wkb_reader := reader\<rparr>)
          (method_factory_parse_wkb e rb w self (RString s))"
proof -
  define reader where
    "reader = reader_in_use (wkb_reader fd) (GEOSWKBReader_create_r e (geos_context fd))"
  define g where "g = GEOSWKBReader_read_r e (geos_context fd) reader s (length s)"
  define fd1 where "fd1 = fd\<lparr>wkb_reader := reader\<rparr>"
  define w1 where
    "w1 = (if wkb_reader fd = None
           then store_data (log_call w (Call_GEOSWKBReader_create_r (geos_context fd))) self
                  (FactoryData fd1)
           else w)"
  define w2 where "w2 = log_call w1 (Call_GEOSWKBReader_read_r (geos_context fd) reader s (length s))"
  have fd1_same: "wkb_reader fd \<noteq> None \<Longrightarrow> fd1 = fd"
    by (auto simp: fd1_def reader_def reader_in_use_def)
  have p1: "RGEO_FACTORY_DATA_PTR w1 self = Inr fd1"
    using fd fd1_same by (auto simp: w1_def FACTORY_PTR_store_data)
  then have p2: "RGEO_FACTORY_DATA_PTR w2 self = Inr fd1"
    by (simp add: w2_def)
  have c1: "calls w1 = calls w @
      (if wkb_reader fd = None then [Call_GEOSWKBReader_create_r (geos_context fd)] else [])"
    by (simp add: w1_def log_call_def)
  have h1: "length (heap w1) = length (heap w)"
    by (simp add: w1_def)
  have unfold: "method_factory_parse_wkb e rb w self (RString s) =
      (if reader \<noteq> None
       then if g \<noteq> None then rgeo_wrap_geos_geometry e rb w2 self g Qnil else Inr (Qnil, w2)
       else Inr (Qnil, w1))"
    using fd
    by (auto simp: method_factory_parse_wkb_def Let_def reader_def g_def w1_def w2_def fd1_def
                   reader_in_use_def)
  have facts: "geos_context fd1 = geos_context fd" "globals fd1 = globals fd" "srid fd1 = srid fd"
    by (simp_all add: fd1_def)
  have "parse_outcome rb w self fd reader g (GEOSGeomTypeId_r e (geos_context fd) g)
          ((if wkb_reader fd = None then [Call_GEOSWKBReader_create_r (geos_context fd)] else []) @
           (if reader = None then []
            else Call_GEOSWKBReader_read_r (geos_context fd) reader s (length s) #
                 wrap_parsed_calls rb fd g))
          fd1
          (method_factory_parse_wkb e rb w self (RString s))"
  proof (cases "reader = None")
    case True
    then show ?thesis using p1 c1 by (simp add: unfold parse_outcome_def)
  next
    case r: False
    show ?thesis
    proof (cases g)
      case None
      then show ?thesis using r p2 c1
        by (simp add: unfold parse_outcome_def w2_def log_call_def wrap_parsed_calls_def)
    next
      case (Some gg)
      from wrap_parsed [OF p2, of e rb gg] obtain v w' where
        "rgeo_wrap_geos_geometry e rb w2 self (Some gg) Qnil = Inr (v, w')"
        "RGEO_FACTORY_DATA_PTR w' self = Inr fd1"
        "calls w' = calls w2 @ wrap_parsed_calls rb fd1 (Some gg)"
        "v \<noteq> Qnil \<longleftrightarrow> ALLOC rb"
        "v \<noteq> Qnil \<longrightarrow>
              v = RData (length (heap w2)) \<and>
              CLASS_OF w' v =
                Inr (registered_class (globals fd1)
                       (kind_of_type_id (GEOSGeomTypeId_r e (geos_context fd1) (Some gg)))) \<and>
              RGEO_GEOMETRY_DATA_PTR w' v =
                Inr \<lparr>geom = Some gg, geom_context = geos_context fd1, factory = self,
                     klasses = Qnil\<rparr> \<and>
              geom_srid w' gg = srid fd1"
        by blast
      then show ?thesis using r Some c1 h1
        by (auto simp: unfold parse_outcome_def facts w2_def log_call_def wrap_parsed_calls_def)
    qed
  qed
  then show ?thesis
    unfolding Let_def reader_def g_def fd1_def .
qed

lemma wrap_parsed_calls_no_create:
  "Call_GEOSWKTReader_create_r c \<notin> set (wrap_parsed_calls rb fd g) \<and>
   Call_GEOSWKBReader_create_r c \<notin> set (wrap_parsed_calls rb fd g)"
  by (simp add: wrap_parsed_calls_def)

lemma parse_wkt_reuse:
  assumes fd: "RGEO_FACTORY_DATA_PTR w self = Inr fd" and r: "wkt_reader fd = Some r"
  shows "\<exists>v w' rest.
           method_factory_parse_wkt e rb w self (RString s) = Inr (v, w') \<and>
           calls w' = calls w @ Call_GEOSWKTReader_read_r (geos_context fd) (Some r) s # rest \<and>
           Call_GEOSWKTReader_create_r (geos_context fd) \<notin> set rest"
  using parse_wkt_call [OF fd, of e s rb] r wrap_parsed_calls_no_create
  by (auto simp: Let_def parse_outcome_def reader_in_use_def)

lemma parse_wkb_reuse:
  assumes fd: "RGEO_FACTORY_DATA_PTR w self = Inr fd" and r: "wkb_reader fd = Some r"
  shows "\<exists>v w' rest.
           method_factory_parse_wkb e rb w self (RString s) = Inr (v, w') \<and>
           calls w' = calls w @ Call_GEOSWKBReader_read_r (geos_context fd) (Some r) s (length s) # rest \<and>
           Call_GEOSWKBReader_create_r (geos_context fd) \<notin> set rest"
  using parse_wkb_call [OF fd, of e s rb] r wrap_parsed_calls_no_create
  by (auto simp: Let_def parse_outcome_def reader_in_use_def)

text \<open>
  C6. On a factory and a string, \<open>method_factory_parse_wkt\<close> and
  \<open>method_factory_parse_wkb\<close> return and raise no fault. The result is \<open>Qnil\<close> when the
  reader cannot be created and when the engine's parse gives no geometry. A reader that
  the call creates is stored in the factory, and a later call, whatever the engine
  answers then, creates none and parses with the stored one. When the parse succeeds the
  result is what \<open>rgeo_wrap_geos_geometry\<close> makes of the geometry with no class hint: a
  new wrapper of the inferred class (and \<open>Qnil\<close> only if its storage cannot be
  allocated).
\<close>

theorem parse_null_or_wrapper:
  assumes fd: "RGEO_FACTORY_DATA_PTR w self = Inr fd"
  shows
    "(let reader = reader_in_use (wkt_reader fd) (GEOSWKTReader_create_r e (geos_context fd));
          g = GEOSWKTReader_read_r e (geos_context fd) reader s
      in parse_outcome rb w self fd reader g (GEOSGeomTypeId_r e (geos_context fd) g)
           ((if wkt_reader fd = None then [Call_GEOSWKTReader_create_r (geos_context fd)] else []) @
            (if reader = None then []
             else Call_GEOSWKTReader_read_r (geos_context fd) reader s #
                  wrap_parsed_calls rb fd g))
           (fd\<lparr>wkt_reader := reader\<rparr>)
           (method_factory_parse_wkt e rb w self (RString s)) \<and>
         (\<forall>v w' e2 rb2 s2.
            method_factory_parse_wkt e rb w self (RString s) = Inr (v, w') \<and> reader \<noteq> None \<longrightarrow>
            (\<exists>v2 w2 rest.
               method_factory_parse_wkt e2 rb2 w' self (RString s2) = Inr (v2, w2) \<and>
               calls w2 = calls w' @ Call_GEOSWKTReader_read_r (geos_context fd) reader s2 # rest \<and>
               Call_GEOSWKTReader_create_r (geos_context fd) \<notin> set rest))) \<and>
     (let reader = reader_in_use (wkb_reader fd) (GEOSWKBReader_create_r e (geos_context fd));
          g = GEOSWKBReader_read_r e (geos_context fd) reader s (length s)
      in parse_outcome rb w self fd reader g (GEOSGeomTypeId_r e (geos_context fd) g)
           ((if wkb_reader fd = None then [Call_GEOSWKBReader_create_r (geos_context fd)] else []) @
            (if reader = None then []
             else Call_GEOSWKBReader_read_r (geos_context fd) reader s (length s) #
                  wrap_parsed_calls rb fd g))
           (fd\<lparr>wkb_reader := reader\<rparr>)
           (method_factory_parse_wkb e rb w self (RString s)) \<and>
         (\<forall>v w' e2 rb2 s2.
            method_factory_parse_wkb e rb w self (RString s) = Inr (v, w') \<and> reader \<noteq> None \<longrightarrow>
            (\<exists>v2 w2 rest.
               method_factory_parse_wkb e2 rb2 w' self (RString s2) = Inr (v2, w2) \<and>
               calls w2 =
                 calls w' @ Call_GEOSWKBReader_read_r (geos_context fd) reader s2 (length s2) # rest \<and>
               Call_GEOSWKBReader_create_r (geos_context fd) \<notin> set rest)))"
proof -
  define rt where
    "rt = reader_in_use (wkt_reader fd) (GEOSWKTReader_create_r e (geos_context fd))"
  define rb' where
    "rb' = reader_in_use (wkb_reader fd) (GEOSWKBReader_create_r e (geos_context fd))"
  have t1: "parse_outcome rb w self fd rt (GEOSWKTReader_read_r e (geos_context fd) rt s)
           (GEOSGeomTypeId_r e (geos_context fd) (GEOSWKTReader_read_r e (geos_context fd) rt s))
           ((if wkt_reader fd = None then [Call_GEOSWKTReader_create_r (geos_context fd)] else []) @
            (if rt = None then []
             else Call_GEOSWKTReader_read_r (geos_context fd) rt s #
                  wrap_parsed_calls rb fd (GEOSWKTReader_read_r e (geos_context fd) rt s)))
           (fd\<lparr>wkt_reader := rt\<rparr>)
           (method_factory_parse_wkt e rb w self (RString s))"
    using parse_wkt_call [OF fd, of e s rb] unfolding Let_def rt_def .
  have b1: "parse_outcome rb w self fd rb' (GEOSWKBReader_read_r e (geos_context fd) rb' s (length s))
           (GEOSGeomTypeId_r e (geos_context fd)
              (GEOSWKBReader_read_r e (geos_context fd) rb' s (length s)))
           ((if wkb_reader fd = None then [Call_GEOSWKBReader_create_r (geos_context fd)] else []) @
            (if rb' = None then []
             else Call_GEOSWKBReader_read_r (geos_context fd) rb' s (length s) #
                  wrap_parsed_calls rb fd (GEOSWKBReader_read_r e (geos_context fd) rb' s (length s))))
           (fd\<lparr>wkb_reader := rb'\<rparr>)
           (method_factory_parse_wkb e rb w self (RString s))"
    using parse_wkb_call [OF fd, of e s rb] unfolding Let_def rb'_def .
  have t2: "\<exists>v2 w2 rest.
               method_factory_parse_wkt e2 rb2 w' self (RString s2) = Inr (v2, w2) \<and>
               calls w2 = calls w' @ Call_GEOSWKTReader_read_r (geos_context fd) rt s2 # rest \<and>
               Call_GEOSWKTReader_create_r (geos_context fd) \<notin> set rest"
    if "method_factory_parse_wkt e rb w self (RString s) = Inr (v, w')" "rt \<noteq> None"
    for v w' e2 rb2 s2
  proof -
    from that(2) obtain r where r: "rt = Some r" by blast
    from t1 that(1) have p: "RGEO_FACTORY_DATA_PTR w' self = Inr (fd\<lparr>wkt_reader := rt\<rparr>)"
      by (auto simp: parse_outcome_def)
    from parse_wkt_reuse [OF p, of r e2 rb2 s2] r show ?thesis
      by simp
  qed
  have b2: "\<exists>v2 w2 rest.
               method_factory_parse_wkb e2 rb2 w' self (RString s2) = Inr (v2, w2) \<and>
               calls w2 =
                 calls w' @ Call_GEOSWKBReader_read_r (geos_context fd) rb' s2 (length s2) # rest \<and>
               Call_GEOSWKBReader_create_r (geos_context fd) \<notin> set rest"
    if "method_factory_parse_wkb e rb w self (RString s) = Inr (v, w')" "rb' \<noteq> None"
    for v w' e2 rb2 s2
  proof -
    from that(2) obtain r where r: "rb' = Some r" by blast
    from b1 that(1) have p: "RGEO_FACTORY_DATA_PTR w' self = Inr (fd\<lparr>wkb_reader := rb'\<rparr>)"
      by (auto simp: parse_outcome_def)
    from parse_wkb_reuse [OF p, of r e2 rb2 s2] r show ?thesis
      by simp
  qed
  from t1 t2 b1 b2 show ?thesis
    unfolding Let_def rt_def rb'_def by blast
qed


lemma engine0_simps:
  "GEOSWKTReader_create_r engine0 c = Some 10"
  "GEOSWKTReader_read_r engine0 c r ''POINT (1 2)'' = Some 100"
  "GEOSWKTReader_read_r engine0 c r ''NOT WKT'' = None"
  "GEOSWKBReader_read_r engine0 c r ''X'' (Suc 0) = None"
  "GEOSGeomTypeId_r engine0 c (Some 100) = 0"
  by (simp_all add: engine0_def)

lemma factory0_simps:
  "globals factory0 = globals0" "geos_context factory0 = Some 1"
  "wkt_reader factory0 = None" "wkb_reader factory0 = Some 11"
  "srid factory0 = 4326"
  by (simp_all add: factory0_def)

lemma world0_calls: "calls world0 = []"
  by (simp add: world0_def)

theorem parse_null_or_wrapper_witness:
  "RGEO_FACTORY_DATA_PTR world0 (RData 0) = Inr factory0 \<and>
   (\<exists>w'. method_factory_parse_wkt engine0 ruby0 world0 (RData 0) (RString ''POINT (1 2)'') =
           Inr (RData 3, w') \<and>
         CLASS_OF w' (RData 3) = Inr (RClass ''PointImpl'') \<and>
         RGEO_FACTORY_DATA_PTR w' (RData 0) = Inr (factory0\<lparr>wkt_reader := Some 10\<rparr>) \<and>
         calls w' =
           [Call_GEOSWKTReader_create_r (Some 1),
            Call_GEOSWKTReader_read_r (Some 1) (Some 10) ''POINT (1 2)'',
            Call_GEOSGeomTypeId_r (Some 1) (Some 100),
            Call_GEOSSetSRID_r (Some 1) (Some 100) 4326]) \<and>
   (\<exists>w'. method_factory_parse_wkt engine0 ruby0 world0 (RData 0) (RString ''NOT WKT'') =
           Inr (Qnil, w')) \<and>
   (\<exists>w'. method_factory_parse_wkb engine0 ruby0 world0 (RData 0) (RString ''X'') = Inr (Qnil, w') \<and>
         calls w' = [Call_GEOSWKBReader_read_r (Some 1) (Some 11) ''X'' 1])"
proof -
  note ev = Let_def parse_outcome_def reader_in_use_def wrap_parsed_calls_def engine0_simps
    factory0_simps world0_calls world0_heap ruby0_ALLOC
  have "\<exists>w'. method_factory_parse_wkt engine0 ruby0 world0 (RData 0) (RString ''POINT (1 2)'') =
           Inr (RData 3, w') \<and>
         CLASS_OF w' (RData 3) = Inr (RClass ''PointImpl'') \<and>
         RGEO_FACTORY_DATA_PTR w' (RData 0) = Inr (factory0\<lparr>wkt_reader := Some 10\<rparr>) \<and>
         calls w' =
           [Call_GEOSWKTReader_create_r (Some 1),
            Call_GEOSWKTReader_read_r (Some 1) (Some 10) ''POINT (1 2)'',
            Call_GEOSGeomTypeId_r (Some 1) (Some 100),
            Call_GEOSSetSRID_r (Some 1) (Some 100) 4326]"
    using parse_null_or_wrapper [OF factory0_ptr, of engine0 "''POINT (1 2)''" ruby0]
    by (auto simp: ev kind_of_type_id_def globals0_def)
  moreover have "\<exists>w'. method_factory_parse_wkt engine0 ruby0 world0 (RData 0) (RString ''NOT WKT'') =
           Inr (Qnil, w')"
    using parse_null_or_wrapper [OF factory0_ptr, of engine0 "''NOT WKT''" ruby0]
    by (auto simp: ev)
  moreover have "\<exists>w'. method_factory_parse_wkb engine0 ruby0 world0 (RData 0) (RString ''X'') = Inr (Qnil, w') \<and>
         calls w' = [Call_GEOSWKBReader_read_r (Some 1) (Some 11) ''X'' 1]"
    using parse_null_or_wrapper [OF factory0_ptr, of engine0 "''X''" ruby0]
    by (auto simp: ev)
  ultimately show ?thesis
    using factory0_ptr by blast
qed

section \<open>Properties of detaching\<close>

lemma GEOMETRY_PTR_RData:
  "RGEO_GEOMETRY_DATA_PTR w v = Inr gd \<Longrightarrow>
   \<exists>a. v = RData a \<and> a < length (heap w) \<and> obj_data (heap w ! a) = GeometryData gd"
  by (cases v)
     (auto simp: RGEO_GEOMETRY_DATA_PTR_def DATA_PTR_def split: if_splits cdata.splits)

text \<open>
  C2. When the cast gives a geometry wrapper, \<open>rgeo_convert_to_detached_geos_geometry\<close>
  returns the wrapper's native handle and, through the out-parameter if there is one, its
  member-classes, or the wrapper's own class when the member-classes are not set. After
  the call the wrapper's native handle and context are \<open>NULL\<close> and its factory and
  member-classes \<open>Qnil\<close>; its class, every other object, the engine's ids and the
  calls made are as the cast left them.
\<close>

theorem detach_strips_wrapper:
  assumes fd: "RGEO_FACTORY_DATA_PTR w factory_arg = Inr fd"
    and cast: "rb_funcall rb w (feature_module (globals fd)) ''cast''
                 [obj, factory_arg, type, RSymbol ''force_new'', RSymbol ''keep_subtype''] =
               Inr (object, w1)"
    and od: "RGEO_GEOMETRY_DATA_PTR w1 object = Inr od"
  shows "\<exists>k w'.
           CLASS_OF w1 object = Inr k \<and>
           rgeo_convert_to_detached_geos_geometry rb w obj factory_arg type klasses_arg =
             Inr ((geom od,
                   map_option (\<lambda>_. if klasses od = Qnil then k else klasses od) klasses_arg),
                  w') \<and>
           RGEO_GEOMETRY_DATA_PTR w' object =
             Inr \<lparr>geom = None, geom_context = None, factory = Qnil, klasses = Qnil\<rparr> \<and>
           CLASS_OF w' object = Inr k \<and>
           length (heap w') = length (heap w1) \<and>
           (\<forall>a. RData a \<noteq> object \<longrightarrow> heap w' ! a = heap w1 ! a) \<and>
           calls w' = calls w1 \<and> geom_srid w' = geom_srid w1"
proof -
  from GEOMETRY_PTR_RData [OF od] obtain a where
    a: "object = RData a" "a < length (heap w1)" "obj_data (heap w1 ! a) = GeometryData od"
    by blast
  define k where "k = obj_klass (heap w1 ! a)"
  define w' where
    "w' = store_data w1 object
            (GeometryData (od\<lparr>geom := None, geom_context := None, factory := Qnil, klasses := Qnil\<rparr>))"
  have k: "CLASS_OF w1 object = Inr k"
    using a by (simp add: CLASS_OF_def k_def)
  have "rgeo_convert_to_detached_geos_geometry rb w obj factory_arg type klasses_arg =
             Inr ((geom od,
                   map_option (\<lambda>_. if klasses od = Qnil then k else klasses od) klasses_arg),
                  w')"
    using fd cast od k a(1)
    by (cases klasses_arg)
       (simp_all add: rgeo_convert_to_detached_geos_geometry_def Let_def NIL_P_def w'_def)
  moreover have "RGEO_GEOMETRY_DATA_PTR w' object =
             Inr \<lparr>geom = None, geom_context = None, factory = Qnil, klasses = Qnil\<rparr>"
    using a by (simp add: w'_def store_data_def RGEO_GEOMETRY_DATA_PTR_def DATA_PTR_def)
  moreover have "CLASS_OF w' object = Inr k"
    using a by (simp add: w'_def store_data_def CLASS_OF_def k_def)
  moreover have "length (heap w') = length (heap w1)"
    by (simp add: w'_def)
  moreover have "\<forall>b. RData b \<noteq> object \<longrightarrow> heap w' ! b = heap w1 ! b"
    using a by (simp add: w'_def store_data_def)
  moreover have "calls w' = calls w1" "geom_srid w' = geom_srid w1"
    using a by (simp_all add: w'_def store_data_def)
  ultimately show ?thesis
    using k by blast
qed

text \<open>
  C10. When the cast gives \<open>Qnil\<close>, \<open>rgeo_convert_to_detached_geos_geometry\<close> returns a
  \<open>NULL\<close> handle, the out-parameter (if there is one) holds \<open>Qnil\<close> whatever it held
  before, and the state is the one the cast left: no object is changed. The
  out-parameter is cleared before the cast is made: it holds \<open>Qnil\<close> also when the cast
  raises.
\<close>

theorem detach_coercion_fails:
  assumes fd: "RGEO_FACTORY_DATA_PTR w factory_arg = Inr fd"
  shows
    "(rb_funcall rb w (feature_module (globals fd)) ''cast''
        [obj, factory_arg, type, RSymbol ''force_new'', RSymbol ''keep_subtype''] = Inr (Qnil, w1) \<longrightarrow>
      rgeo_convert_to_detached_geos_geometry rb w obj factory_arg type klasses_arg =
        Inr ((None, map_option (\<lambda>_. Qnil) klasses_arg), w1)) \<and>
     (rb_funcall rb w (feature_module (globals fd)) ''cast''
        [obj, factory_arg, type, RSymbol ''force_new'', RSymbol ''keep_subtype''] = Inl f \<longrightarrow>
      rgeo_convert_to_detached_geos_geometry rb w obj factory_arg type klasses_arg =
        Inl (f, map_option (\<lambda>_. Qnil) klasses_arg))"
  using fd
  by (cases klasses_arg)
     (simp_all add: rgeo_convert_to_detached_geos_geometry_def Let_def NIL_P_def)

lemma world1_simps:
  "RGEO_FACTORY_DATA_PTR world1 (RData 0) = Inr factory0"
  "RGEO_GEOMETRY_DATA_PTR world1 (RData 2) =
     Inr \<lparr>geom = Some 105, geom_context = Some 1, factory = RData 0, klasses = Qnil\<rparr>"
  "RGEO_GEOMETRY_DATA_PTR world1 (RData 3) =
     Inr \<lparr>geom = Some 104, geom_context = Some 1, factory = RData 0,
          klasses = RArray [RClass ''PointImpl'', RClass ''PolygonImpl'']\<rparr>"
  "CLASS_OF world1 (RData 2) = Inr (RClass ''PolygonImpl'')"
  "CLASS_OF world1 (RData 3) = Inr (RClass ''GeometryCollectionImpl'')"
  by (simp_all add: world1_def world0_def RGEO_FACTORY_DATA_PTR_def RGEO_GEOMETRY_DATA_PTR_def
                    DATA_PTR_def CLASS_OF_def)

lemma ruby0_cast:
  "rb_funcall ruby0 w recv ''cast'' (RData 2 # args) = Inr (RData 2, w)"
  "rb_funcall ruby0 w recv ''cast'' (RData 3 # args) = Inr (RData 3, w)"
  "rb_funcall ruby0 w recv ''cast'' (RData 1 # args) = Inr (Qnil, w)"
  by (simp_all add: ruby0_def)

theorem detach_strips_wrapper_witness:
  "RGEO_FACTORY_DATA_PTR world1 (RData 0) = Inr factory0 \<and>
   (\<exists>w'. rgeo_convert_to_detached_geos_geometry ruby0 world1 (RData 2) (RData 0) Qnil
            (Some (RInteger 7)) =
           Inr ((Some 105, Some (RClass ''PolygonImpl'')), w') \<and>
         RGEO_GEOMETRY_DATA_PTR w' (RData 2) =
           Inr \<lparr>geom = None, geom_context = None, factory = Qnil, klasses = Qnil\<rparr>) \<and>
   (\<exists>w'. rgeo_convert_to_detached_geos_geometry ruby0 world1 (RData 3) (RData 0) Qnil
            (Some (RInteger 7)) =
           Inr ((Some 104, Some (RArray [RClass ''PointImpl'', RClass ''PolygonImpl''])), w') \<and>
         RGEO_GEOMETRY_DATA_PTR w' (RData 3) =
           Inr \<lparr>geom = None, geom_context = None, factory = Qnil, klasses = Qnil\<rparr>)"
proof -
  have "\<exists>w'. rgeo_convert_to_detached_geos_geometry ruby0 world1 (RData 2) (RData 0) Qnil
            (Some (RInteger 7)) =
           Inr ((Some 105, Some (RClass ''PolygonImpl'')), w') \<and>
         RGEO_GEOMETRY_DATA_PTR w' (RData 2) =
           Inr \<lparr>geom = None, geom_context = None, factory = Qnil, klasses = Qnil\<rparr>"
    using detach_strips_wrapper
            [OF world1_simps(1) ruby0_cast(1) world1_simps(2),
               where klasses_arg = "Some (RInteger 7)"]
    by (auto simp: world1_simps)
  moreover have "\<exists>w'. rgeo_convert_to_detached_geos_geometry ruby0 world1 (RData 3) (RData 0) Qnil
            (Some (RInteger 7)) =
           Inr ((Some 104, Some (RArray [RClass ''PointImpl'', RClass ''PolygonImpl''])), w') \<and>
         RGEO_GEOMETRY_DATA_PTR w' (RData 3) =
           Inr \<lparr>geom = None, geom_context = None, factory = Qnil, klasses = Qnil\<rparr>"
    using detach_strips_wrapper
            [OF world1_simps(1) ruby0_cast(2) world1_simps(3),
               where klasses_arg = "Some (RInteger 7)"]
    by (auto simp: world1_simps)
  ultimately show ?thesis
    using world1_simps(1) by blast
qed

theorem detach_coercion_fails_witness:
  "RGEO_FACTORY_DATA_PTR world1 (RData 0) = Inr factory0 \<and>
   rb_funcall ruby0 world1 (feature_module (globals factory0)) ''cast''
     [RData 1, RData 0, Qnil, RSymbol ''force_new'', RSymbol ''keep_subtype''] = Inr (Qnil, world1) \<and>
   rgeo_convert_to_detached_geos_geometry ruby0 world1 (RData 1) (RData 0) Qnil (Some (RInteger 7)) =
     Inr ((None, Some Qnil), world1) \<and>
   rgeo_convert_to_detached_geos_geometry ruby0 world1 (RData 1) (RData 0) Qnil None =
     Inr ((None, None), world1)"
  using detach_coercion_fails
          [OF world1_simps(1), of ruby0 "RData 1" Qnil world1 "Some (RInteger 7)" RubyError]
        detach_coercion_fails
          [OF world1_simps(1), of ruby0 "RData 1" Qnil world1 None RubyError]
  by (simp add: world1_simps(1) ruby0_cast del: One_nat_def)

end
